theory Spec2Isabelle
  imports Complex_Main
begin

section \<open>Numbers and JavaScript primitives\<close>

text \<open>
  The aggregator (\<^verbatim>\<open>lib/avm-aggregator.ts\<close>) computes with JavaScript numbers. They
  are taken as exact reals, with exact arithmetic in place of the rounding of IEEE
  doubles: the statistics run over finite inputs (the validity filter rejects
  everything at or above 50,000,000 and everything that is not positive), so no
  overflow, infinity or NaN arises after the filter. \<^verbatim>\<open>Math.round\<close> rounds to the
  nearest integer, a half going up. A number is truthy when it is not zero.
  Where a product falls on or next to a half the doubles of the code can round to
  the other side (85 * 0.7 is 59.49999999999999 in doubles and rounds to 59, where
  59.5 rounds to 60); results that pass through \<^verbatim>\<open>Math.round\<close> are stated only for
  inputs away from such a boundary.
  Logging through winston has no effect on any result and is left out.
\<close>

definition Math_round :: "real \<Rightarrow> real" where
  "Math_round x = of_int \<lfloor>x + 1 / 2\<rfloor>"

definition truthy :: "real \<Rightarrow> bool" where
  "truthy x \<longleftrightarrow> x \<noteq> 0"

section \<open>Data model\<close>

text \<open>
  The scraping utilities (\<^verbatim>\<open>ScrapingUtils\<close> with its interfaces) are in the sources as
  a listing inside \<^verbatim>\<open>V2_IMPLEMENTATION_SUMMARY.md\<close>.

  \<^verbatim>\<open>AVMData\<close> of the scraping utilities, and an element of
  \<^verbatim>\<open>PropertyAnalysisResult.avmEstimates\<close>, which has the same fields and
  \<^verbatim>\<open>lastUpdated\<close>. Optional and nullable fields are options, \<^verbatim>\<open>Date\<close> values
  are milliseconds since the epoch.
\<close>

record AVMData =
  provider :: string
  estimate :: real
  confidence :: "real option"
  lowRange :: "real option"
  highRange :: "real option"

record AVMEstimate = AVMData +
  lastUpdated :: nat

record EstimateRange =
  min_range :: real
  max_range :: real

record Confidence =
  overall :: real
  byProvider :: "string \<rightharpoonup> real"

text \<open>The object returned by \<^verbatim>\<open>calculateAnalysisMetrics\<close>.\<close>

record AnalysisMetrics =
  averageEstimate :: real
  estimateRange :: EstimateRange
  confidence_metrics :: Confidence

section \<open>Reconciliation\<close>

text \<open>\<^verbatim>\<open>ScrapingUtils.isValidPrice(price: number | null)\<close>.\<close>

definition isValidPrice :: "real option \<Rightarrow> bool" where
  "isValidPrice price =
     (case price of None \<Rightarrow> False | Some p \<Rightarrow> p > 0 \<and> p < 50000000)"

text \<open>
  The table of \<^verbatim>\<open>getDefaultConfidence\<close>. \<^verbatim>\<open>defaultConfidences[provider] || 65\<close>
  yields 65 when the key is missing or its value is falsy. The table is a plain
  object: for a provider named like a property that every object inherits
  (\<open>inheritedNames\<close>) the code finds that property, which is not a number, and does
  not return 65. The function below looks up the table's own keys only and says
  nothing true of the code for those names; what is stated of the default of a
  provider excludes them.
\<close>

definition defaultConfidences :: "(string \<times> real) list" where
  "defaultConfidences =
     [(''homes_com_corelogic'', 85),
      (''homes_com_collateral'', 80),
      (''homes_com_quantarium'', 75),
      (''homes_com_regeodata'', 70),
      (''homes_com_homesgenie'', 65),
      (''zillow'', 80),
      (''redfin'', 85),
      (''realtor_com'', 75),
      (''movoto'', 70)]"

definition inheritedNames :: "string list" where
  "inheritedNames =
     [''constructor'', ''toString'', ''toLocaleString'', ''valueOf'', ''hasOwnProperty'',
      ''isPrototypeOf'', ''propertyIsEnumerable'', ''__proto__'', ''__defineGetter__'',
      ''__defineSetter__'', ''__lookupGetter__'', ''__lookupSetter__'']"

definition getDefaultConfidence :: "string \<Rightarrow> real" where
  "getDefaultConfidence p =
     (case map_of defaultConfidences p of
        None \<Rightarrow> 65
      | Some v \<Rightarrow> if truthy v then v else 65)"

definition calculateStandardDeviation :: "real list \<Rightarrow> real" where
  "calculateStandardDeviation values =
     (if length values \<le> 1 then 0
      else
        let mean = foldl (\<lambda>sum val. sum + val) 0 values / real (length values);
            squaredDifferences = map (\<lambda>val. (val - mean)\<^sup>2) values;
            variance = foldl (\<lambda>sum val. sum + val) 0 squaredDifferences / real (length values)
        in sqrt variance)"

text \<open>
  The locals of \<^verbatim>\<open>calculateAnalysisMetrics\<close>, each as a function of the list
  \<^verbatim>\<open>validEstimates\<close>. \<open>meanEstimate\<close> is the local \<^verbatim>\<open>averageEstimate\<close> before it
  is rounded for the result.
\<close>

definition validEstimates :: "AVMEstimate list \<Rightarrow> AVMEstimate list" where
  "validEstimates estimates = filter (\<lambda>est. isValidPrice (Some (estimate est))) estimates"

definition meanEstimate :: "AVMEstimate list \<Rightarrow> real" where
  "meanEstimate valid =
     foldl (\<lambda>sum est. sum + estimate est) 0 valid / real (length valid)"

definition estimateValues :: "AVMEstimate list \<Rightarrow> real list" where
  "estimateValues valid = map estimate valid"

text \<open>
  One pass of the loop \<^verbatim>\<open>for (const est of validEstimates)\<close> over the triple
  (\<^verbatim>\<open>confidenceByProvider\<close>, \<^verbatim>\<open>totalConfidence\<close>, \<^verbatim>\<open>confidenceCount\<close>). The test
  \<^verbatim>\<open>if (est.confidence)\<close> is a truthiness test: an absent confidence and a
  confidence of 0 both take the else branch.
\<close>

fun confidenceStep ::
  "(string \<rightharpoonup> real) \<times> real \<times> nat \<Rightarrow> AVMEstimate \<Rightarrow> (string \<rightharpoonup> real) \<times> real \<times> nat" where
  "confidenceStep (confidenceByProvider, totalConfidence, confidenceCount) est =
     (case confidence est of
        Some c \<Rightarrow>
          if truthy c then
            (confidenceByProvider(provider est \<mapsto> c), totalConfidence + c, confidenceCount + 1)
          else
            (let defaultConfidence = getDefaultConfidence (provider est) in
             (confidenceByProvider(provider est \<mapsto> defaultConfidence),
              totalConfidence + defaultConfidence, confidenceCount + 1))
      | None \<Rightarrow>
          (let defaultConfidence = getDefaultConfidence (provider est) in
           (confidenceByProvider(provider est \<mapsto> defaultConfidence),
            totalConfidence + defaultConfidence, confidenceCount + 1)))"

definition confidenceLoop :: "AVMEstimate list \<Rightarrow> (string \<rightharpoonup> real) \<times> real \<times> nat" where
  "confidenceLoop valid = foldl confidenceStep (Map.empty, 0, 0) valid"

definition overallConfidence :: "AVMEstimate list \<Rightarrow> real" where
  "overallConfidence valid =
     (case confidenceLoop valid of
        (confidenceByProvider, totalConfidence, confidenceCount) \<Rightarrow>
          if confidenceCount > 0 then totalConfidence / real confidenceCount else 0)"

definition coefficientOfVariation :: "AVMEstimate list \<Rightarrow> real" where
  "coefficientOfVariation valid =
     calculateStandardDeviation (estimateValues valid) / meanEstimate valid"

definition consistencyMultiplier :: "AVMEstimate list \<Rightarrow> real" where
  "consistencyMultiplier valid = max (1 / 2) (1 - coefficientOfVariation valid)"

definition adjustedConfidence :: "AVMEstimate list \<Rightarrow> real" where
  "adjustedConfidence valid = overallConfidence valid * consistencyMultiplier valid"

definition degenerateMetrics :: AnalysisMetrics where
  "degenerateMetrics =
     \<lparr>averageEstimate = 0,
      estimateRange = \<lparr>min_range = 0, max_range = 0\<rparr>,
      confidence_metrics = \<lparr>overall = 0, byProvider = Map.empty\<rparr>\<rparr>"

text \<open>
  \<^verbatim>\<open>calculateAnalysisMetrics\<close>. After the second early return the list of valid
  estimates has a first element, so \<^verbatim>\<open>Math.min(...estimateValues)\<close> and
  \<^verbatim>\<open>Math.max(...estimateValues)\<close> fold over a non-empty list.
\<close>

definition calculateAnalysisMetrics :: "AVMEstimate list \<Rightarrow> AnalysisMetrics" where
  "calculateAnalysisMetrics estimates =
     (if length estimates = 0 then degenerateMetrics
      else
        (case validEstimates estimates of
           [] \<Rightarrow> degenerateMetrics
         | v # rest \<Rightarrow>
             (let valid = v # rest in
              \<lparr>averageEstimate = Math_round (meanEstimate valid),
               estimateRange =
                 \<lparr>min_range = fold min (estimateValues rest) (estimate v),
                  max_range = fold max (estimateValues rest) (estimate v)\<rparr>,
               confidence_metrics =
                 \<lparr>overall = Math_round (adjustedConfidence valid),
                  byProvider = fst (confidenceLoop valid)\<rparr>\<rparr>)))"

section \<open>Scraping results and collaborators\<close>

text \<open>
  \<^verbatim>\<open>PropertyData\<close> and \<^verbatim>\<open>ScrapingResult\<close> of the scraping utilities. The field
  \<^verbatim>\<open>data\<close> has type \<^verbatim>\<open>any\<close>; the aggregator reads only \<^verbatim>\<open>data?.property\<close>, so
  \<open>data\<close> is \<open>None\<close> for null and otherwise an object whose \<open>property\<close> is present
  or not. The fields of \<^verbatim>\<open>PropertyData\<close> carry the prefix \<open>pd_\<close>, those of a stored
  property row the prefix \<open>row_\<close>: \<^verbatim>\<open>PropertyAnalysisResult\<close> uses the plain names.
\<close>

record PropertyData =
  pd_address :: string
  pd_city :: string
  pd_state :: string
  pd_zipCode :: string
  pd_latitude :: "real option"
  pd_longitude :: "real option"
  pd_propertyType :: "string option"
  pd_bedrooms :: "real option"
  pd_bathrooms :: "real option"
  pd_squareFootage :: "real option"
  pd_lotSize :: "real option"
  pd_yearBuilt :: "real option"

record ScrapedData =
  property :: "PropertyData option"

record ScrapingResult =
  success :: bool
  data :: "ScrapedData option"
  error :: "string option"
  duration :: "nat option"

text \<open>
  A row of the property table with its estimates, as
  \<^verbatim>\<open>prisma.property.findUnique\<close> with \<^verbatim>\<open>include: { avmEstimates }\<close> returns it.
\<close>

record Property =
  row_id :: string
  row_address :: string
  row_city :: string
  row_state :: string
  row_zipCode :: string
  row_avmEstimates :: "AVMEstimate list"

text \<open>
  Everything outside the aggregator is a collaborator acting on a world \<open>'w\<close>: the
  clock and timer, the MD5 digest, and the database client. A call that can throw
  returns a sum, \<open>Inl\<close> carrying the message of the error thrown. Every call
  settles: a promise that stays pending for ever has no counterpart here.
\<close>

record 'w collaborators =
  dateNow :: "'w \<Rightarrow> nat"
  setTimeout :: "nat \<Rightarrow> 'w \<Rightarrow> 'w"
  MD5 :: "string \<Rightarrow> string"
  findMany :: "string \<Rightarrow> 'w \<Rightarrow> string + AVMEstimate list"
  findUnique :: "string \<Rightarrow> 'w \<Rightarrow> string + Property option"
  upsert :: "string \<Rightarrow> AVMData \<Rightarrow> 'w \<Rightarrow> (string + unit) \<times> 'w"

text \<open>
  \<^verbatim>\<open>scraper.scrapeAVM(address, city, state, zipCode)\<close> of one provider class: it
  returns a result or throws, and may change the world. What it throws is any value:
  \<open>Inl m\<close> is a throw of a value whose \<^verbatim>\<open>message\<close> is \<open>m\<close>, with \<open>None\<close> for a value
  that has none (a string, \<^verbatim>\<open>null\<close>), where \<^verbatim>\<open>error?.message\<close> is \<^verbatim>\<open>undefined\<close>.
\<close>

type_synonym 'w scrapeAVM =
  "string \<Rightarrow> string \<Rightarrow> string \<Rightarrow> string \<Rightarrow> 'w
   \<Rightarrow> (string option + ScrapingResult) \<times> 'w"

text \<open>
  What a run does that a caller or an observer can see besides the result: each call
  of a scraper (provider, attempt number), each wait (provider, milliseconds), the
  read of the stored estimates and the reconciliation.
\<close>

datatype event =
  Scrape string nat
| Delay string nat
| FetchEstimates string
| Reconcile

section \<open>Scraping utilities\<close>

text \<open>\<^verbatim>\<open>ScrapingUtils.delay(ms)\<close> resolves through the timer after \<open>ms\<close> milliseconds.\<close>

definition delay :: "'w collaborators \<Rightarrow> nat \<Rightarrow> 'w \<Rightarrow> 'w" where
  "delay env ms w = setTimeout env ms w"

text \<open>\<^verbatim>\<open>String.prototype.toLowerCase\<close> on ASCII letters.\<close>

definition toLowerCase :: "string \<Rightarrow> string" where
  "toLowerCase s =
     map (\<lambda>c. let n = (of_char c :: nat) in if 65 \<le> n \<and> n \<le> 90 then char_of (n + 32) else c) s"

definition generatePropertyHash ::
  "'w collaborators \<Rightarrow> string \<Rightarrow> string \<Rightarrow> string \<Rightarrow> string \<Rightarrow> string" where
  "generatePropertyHash env address city state zipCode =
     (let propertyString =
        toLowerCase address @ ''_'' @ toLowerCase city @ ''_'' @ toLowerCase state @ ''_'' @ zipCode
      in MD5 env propertyString)"

text \<open>
  \<^verbatim>\<open>ScrapingUtils.saveAVMEstimate\<close>: one upsert keyed by \<open>(propertyId, provider)\<close>; an
  error of the database client is logged and thrown again.
\<close>

definition saveAVMEstimate ::
  "'w collaborators \<Rightarrow> string \<Rightarrow> AVMData \<Rightarrow> 'w \<Rightarrow> (string + unit) \<times> 'w" where
  "saveAVMEstimate env propertyId avmData w =
     (case upsert env propertyId avmData w of
        (Inl err, w') \<Rightarrow> (Inl err, w')
      | (Inr u, w') \<Rightarrow> (Inr u, w'))"

section \<open>The aggregator\<close>

definition CONCURRENT_SCRAPERS :: nat where
  "CONCURRENT_SCRAPERS = 2"

definition RETRY_ATTEMPTS :: nat where
  "RETRY_ATTEMPTS = 2"

text \<open>
  \<^verbatim>\<open>SCRAPERS\<close>, the five provider classes being imports of the aggregator.
\<close>

definition SCRAPERS ::
  "'w scrapeAVM \<Rightarrow> 'w scrapeAVM \<Rightarrow> 'w scrapeAVM \<Rightarrow> 'w scrapeAVM \<Rightarrow> 'w scrapeAVM
   \<Rightarrow> (string \<times> 'w scrapeAVM) list" where
  "SCRAPERS HomesComScraper ZillowScraper MovotoScraper RedfinScraper RealtorComScraper =
     [(''homes_com'', HomesComScraper),
      (''zillow'', ZillowScraper),
      (''movoto'', MovotoScraper),
      (''redfin'', RedfinScraper),
      (''realtor_com'', RealtorComScraper)]"

text \<open>
  The body of the \<^verbatim>\<open>do ... while\<close> loop of one task after \<^verbatim>\<open>attempts++\<close>: the
  \<^verbatim>\<open>try\<close> block calls the scraper and, on a result with \<^verbatim>\<open>success: false\<close> and
  attempts left, waits \<^verbatim>\<open>2000 * attempts\<close>; the \<^verbatim>\<open>catch\<close> block replaces the result
  by a failed one whose \<^verbatim>\<open>error\<close> is \<^verbatim>\<open>error?.message\<close>, and does not wait.
\<close>

definition tryBody ::
  "'w collaborators \<Rightarrow> string \<Rightarrow> ('w \<Rightarrow> (string option + ScrapingResult) \<times> 'w) \<Rightarrow> nat
   \<Rightarrow> 'w \<times> event list \<Rightarrow> ScrapingResult \<times> 'w \<times> event list" where
  "tryBody env name scrape attempts s =
     (case s of (w, tr) \<Rightarrow>
        (case scrape w of
           (Inr result, w1) \<Rightarrow>
             if success result then (result, w1, tr @ [Scrape name attempts])
             else if attempts < RETRY_ATTEMPTS then
               (result, delay env (2000 * attempts) w1,
                tr @ [Scrape name attempts, Delay name (2000 * attempts)])
             else (result, w1, tr @ [Scrape name attempts])
         | (Inl message, w1) \<Rightarrow>
             (\<lparr>success = False, data = None, error = message, duration = Some 0\<rparr>,
              w1, tr @ [Scrape name attempts])))"

text \<open>
  The loop, entered with the number of attempts made so far; it returns the last
  result and the number of attempts. \<^verbatim>\<open>break\<close> leaves the loop on a successful
  result, where the loop condition is false as well.
\<close>

function retryLoop ::
  "'w collaborators \<Rightarrow> string \<Rightarrow> ('w \<Rightarrow> (string option + ScrapingResult) \<times> 'w) \<Rightarrow> nat
   \<Rightarrow> 'w \<times> event list \<Rightarrow> ScrapingResult \<times> nat \<times> 'w \<times> event list" where
  "retryLoop env name scrape attempts s =
     (case tryBody env name scrape (attempts + 1) s of
        (result, s') \<Rightarrow>
          if attempts + 1 < RETRY_ATTEMPTS \<and> \<not> success result
          then retryLoop env name scrape (attempts + 1) s'
          else (result, attempts + 1, s'))"
  by pat_completeness auto
termination
  by (relation "measure (\<lambda>(env, name, scrape, attempts, s). RETRY_ATTEMPTS - attempts)") auto

text \<open>
  \<^verbatim>\<open>scrapingResults[name] = result\<close> on an object whose keys are provider names:
  an existing key keeps its place, a new key goes last, and \<^verbatim>\<open>Object.values\<close> lists
  the values in that order.
\<close>

fun assign :: "string \<Rightarrow> 'v \<Rightarrow> (string \<times> 'v) list \<Rightarrow> (string \<times> 'v) list" where
  "assign k v [] = [(k, v)]"
| "assign k v ((k', v') # rest) =
     (if k' = k then (k, v) # rest else (k', v') # assign k v rest)"

definition Object_values :: "(string \<times> 'v) list \<Rightarrow> 'v list" where
  "Object_values obj = map snd obj"

text \<open>
  One task of \<^verbatim>\<open>scrapingTasks\<close>: the retry loop, then the write into
  \<^verbatim>\<open>scrapingResults\<close>. The first component is how the promise of the task settles:
  \<open>Inr\<close> when it fulfils, \<open>Inl\<close> when it rejects.
\<close>

definition scrapingTask ::
  "'w collaborators \<Rightarrow> string \<Rightarrow> string \<Rightarrow> string \<Rightarrow> string \<Rightarrow> string \<times> 'w scrapeAVM
   \<Rightarrow> (string \<times> ScrapingResult) list \<times> 'w \<times> event list
   \<Rightarrow> (string option + ScrapingResult) \<times> (string \<times> ScrapingResult) list \<times> 'w \<times> event list"
  where
  "scrapingTask env address city state zipCode task rs =
     (case task of (name, scraper) \<Rightarrow>
        (case rs of (scrapingResults, s) \<Rightarrow>
           (case retryLoop env name (scraper address city state zipCode) 0 s of
              (result, attempts, s') \<Rightarrow> (Inr result, assign name result scrapingResults, s'))))"

text \<open>
  \<^verbatim>\<open>await Promise.allSettled(scrapingTasks)\<close>, as one sequential schedule: the tasks
  run to their end one after the other, in the order of the list. Under the limiter
  the code has two tasks in flight, whose attempts interleave and which write
  \<^verbatim>\<open>scrapingResults[name]\<close> as each completes; so the order of the keys of
  \<^verbatim>\<open>scrapingResults\<close>, the order of the events of different providers and the world
  that a scraper finds are those of this schedule only. The properties stated of a
  run below do not depend on them: they speak of the set of keys, of the entry of a
  provider, and of scrapers whatever world they are called in.
\<close>

fun allSettled ::
  "'w collaborators \<Rightarrow> string \<Rightarrow> string \<Rightarrow> string \<Rightarrow> string \<Rightarrow> (string \<times> 'w scrapeAVM) list
   \<Rightarrow> (string \<times> ScrapingResult) list \<times> 'w \<times> event list
   \<Rightarrow> (string option + ScrapingResult) list \<times> (string \<times> ScrapingResult) list
      \<times> 'w \<times> event list" where
  "allSettled env address city state zipCode [] rs = ([], rs)"
| "allSettled env address city state zipCode (task # tasks) rs =
     (case scrapingTask env address city state zipCode task rs of
        (settled, rs') \<Rightarrow>
          (case allSettled env address city state zipCode tasks rs' of
             (others, rs'') \<Rightarrow> (settled # others, rs'')))"

text \<open>\<^verbatim>\<open>result.success && result.data?.property\<close>.\<close>

definition identifies :: "ScrapingResult \<Rightarrow> bool" where
  "identifies result \<longleftrightarrow>
     success result \<and> (case data result of None \<Rightarrow> False | Some d \<Rightarrow> property d \<noteq> None)"

text \<open>
  The loop over \<^verbatim>\<open>Object.values(scrapingResults)\<close> that sets \<^verbatim>\<open>propertyId\<close>, \<open>None\<close>
  being \<^verbatim>\<open>null\<close>.
\<close>

fun findPropertyId ::
  "'w collaborators \<Rightarrow> string \<Rightarrow> string \<Rightarrow> string \<Rightarrow> string \<Rightarrow> ScrapingResult list
   \<Rightarrow> string option" where
  "findPropertyId env address city state zipCode [] = None"
| "findPropertyId env address city state zipCode (result # results) =
     (if identifies result then Some (generatePropertyHash env address city state zipCode)
      else findPropertyId env address city state zipCode results)"

text \<open>
  \<^verbatim>\<open>fetchAVMEstimates\<close>: the rows of the property, most recent first; an error of the
  read is logged and the list is empty.
\<close>

definition fetchAVMEstimates :: "'w collaborators \<Rightarrow> string \<Rightarrow> 'w \<Rightarrow> AVMEstimate list" where
  "fetchAVMEstimates env pid w =
     (case findMany env pid w of
        Inl err \<Rightarrow> []
      | Inr estimates \<Rightarrow>
          map (\<lambda>est. \<lparr>provider = provider est, estimate = estimate est,
                      confidence = confidence est, lowRange = lowRange est,
                      highRange = highRange est, lastUpdated = lastUpdated est\<rparr>) estimates)"

text \<open>
  The result type. From here on the parameters \<^verbatim>\<open>address\<close>, \<^verbatim>\<open>city\<close>, \<^verbatim>\<open>state\<close>,
  \<^verbatim>\<open>zipCode\<close> and \<^verbatim>\<open>propertyId\<close> are written \<open>addr\<close>, \<open>cty\<close>, \<open>st\<close>, \<open>zc\<close> and \<open>pid\<close>.
\<close>

record PropertyAnalysisResult = AnalysisMetrics +
  propertyId :: string
  address :: string
  city :: string
  state :: string
  zipCode :: string
  avmEstimates :: "AVMEstimate list"
  scrapingResults :: "(string \<times> ScrapingResult) list"
  analysisTimestamp :: nat

definition noSourceMessage :: string where
  "noSourceMessage = ''Failed to identify property from any scraping source''"

text \<open>
  \<^verbatim>\<open>analyzeProperty\<close>, with the configured scrapers as a parameter, from a world \<open>w0\<close>.
  It returns the analysis or the error thrown (\<open>Inl\<close>), the \<^verbatim>\<open>scrapingResults\<close> object
  as the tasks left it, the world and the events of the run.
  \<^verbatim>\<open>!propertyId\<close> holds for \<^verbatim>\<open>null\<close> and for the empty string.
  \<^verbatim>\<open>analysisStartTime\<close> and \<^verbatim>\<open>totalDuration\<close> are only logged.
\<close>

definition analyzeProperty ::
  "'w collaborators \<Rightarrow> (string \<times> 'w scrapeAVM) list \<Rightarrow> string \<Rightarrow> string \<Rightarrow> string \<Rightarrow> string \<Rightarrow> 'w
   \<Rightarrow> (string + PropertyAnalysisResult) \<times> (string \<times> ScrapingResult) list \<times> 'w \<times> event list" where
  "analyzeProperty env scrapers addr cty st zc w0 =
     (case allSettled env addr cty st zc scrapers ([], w0, []) of
        (settled, results, w1, tr1) \<Rightarrow>
          (case findPropertyId env addr cty st zc (Object_values results) of
             None \<Rightarrow> (Inl noSourceMessage, results, w1, tr1)
           | Some pid \<Rightarrow>
               if pid = [] then (Inl noSourceMessage, results, w1, tr1)
               else
                 (let estimates = fetchAVMEstimates env pid w1;
                      analysis = calculateAnalysisMetrics estimates
                  in (Inr \<lparr>averageEstimate = averageEstimate analysis,
                           estimateRange = estimateRange analysis,
                           confidence_metrics = confidence_metrics analysis,
                           propertyId = pid,
                           address = addr,
                           city = cty,
                           state = st,
                           zipCode = zc,
                           avmEstimates = estimates,
                           scrapingResults = results,
                           analysisTimestamp = dateNow env w1\<rparr>,
                      results, w1, tr1 @ [FetchEstimates pid, Reconcile]))))"

text \<open>
  \<^verbatim>\<open>getPropertyAnalysis\<close>: the whole body is inside \<^verbatim>\<open>try\<close>, and the \<^verbatim>\<open>catch\<close> block
  returns \<^verbatim>\<open>null\<close>. \<open>Inl\<close> would be an error thrown to the caller, \<open>Inr None\<close> is
  \<^verbatim>\<open>null\<close>.
\<close>

definition getPropertyAnalysis ::
  "'w collaborators \<Rightarrow> string \<Rightarrow> 'w \<Rightarrow> string + PropertyAnalysisResult option" where
  "getPropertyAnalysis env pid w =
     (case findUnique env pid w of
        Inl err \<Rightarrow> Inr None
      | Inr None \<Rightarrow> Inr None
      | Inr (Some row) \<Rightarrow>
          (let estimates =
                 map (\<lambda>est. \<lparr>provider = provider est, estimate = estimate est,
                             confidence = confidence est, lowRange = lowRange est,
                             highRange = highRange est, lastUpdated = lastUpdated est\<rparr>)
                   (row_avmEstimates row);
               analysis = calculateAnalysisMetrics estimates
           in Inr (Some \<lparr>averageEstimate = averageEstimate analysis,
                          estimateRange = estimateRange analysis,
                          confidence_metrics = confidence_metrics analysis,
                          propertyId = row_id row,
                          address = row_address row,
                          city = row_city row,
                          state = row_state row,
                          zipCode = row_zipCode row,
                          avmEstimates = estimates,
                          scrapingResults = [],
                          analysisTimestamp = dateNow env w\<rparr>)))"

section \<open>Example inputs\<close>

text \<open>The three estimates of the worked reconciliation example.\<close>

definition exampleEstimates :: "AVMEstimate list" where
  "exampleEstimates =
     [\<lparr>provider = ''zillow'', estimate = 300000, confidence = Some 80,
       lowRange = None, highRange = None, lastUpdated = 0\<rparr>,
      \<lparr>provider = ''redfin'', estimate = 310000, confidence = Some 85,
       lowRange = None, highRange = None, lastUpdated = 0\<rparr>,
      \<lparr>provider = ''movoto'', estimate = 290000, confidence = Some 70,
       lowRange = None, highRange = None, lastUpdated = 0\<rparr>]"

text \<open>Two stored estimates outside the valid range: zero, and above the ceiling.\<close>

definition invalidEstimates :: "AVMEstimate list" where
  "invalidEstimates =
     [\<lparr>provider = ''zillow'', estimate = 0, confidence = Some 80,
       lowRange = None, highRange = None, lastUpdated = 0\<rparr>,
      \<lparr>provider = ''redfin'', estimate = 60000000, confidence = None,
       lowRange = None, highRange = None, lastUpdated = 0\<rparr>]"

text \<open>A valid estimate whose recorded confidence is 0.\<close>

definition zeroConfidenceEstimate :: AVMEstimate where
  "zeroConfidenceEstimate =
     \<lparr>provider = ''zillow'', estimate = 300000, confidence = Some 0,
      lowRange = None, highRange = None, lastUpdated = 0\<rparr>"

text \<open>Two estimates that diverge by a factor of nine.\<close>

definition divergentPair :: "AVMEstimate list" where
  "divergentPair =
     [\<lparr>provider = ''zillow'', estimate = 100000, confidence = None,
       lowRange = None, highRange = None, lastUpdated = 0\<rparr>,
      \<lparr>provider = ''redfin'', estimate = 900000, confidence = None,
       lowRange = None, highRange = None, lastUpdated = 0\<rparr>]"

text \<open>
  A world that is only a clock, and collaborators on it: a timer that advances the
  clock, a digest that is never empty, a database that holds the three estimates of
  the worked example for every property and has no property row.
\<close>

definition exampleEnv :: "nat collaborators" where
  "exampleEnv =
     \<lparr>dateNow = (\<lambda>w. w),
      setTimeout = (\<lambda>ms w. w + ms),
      MD5 = (\<lambda>s. ''0cc175b9c0f1b6a831c399e269772661''),
      findMany = (\<lambda>pid w. Inr exampleEstimates),
      findUnique = (\<lambda>pid w. Inr None),
      upsert = (\<lambda>pid avmData w. (Inr (), w))\<rparr>"

text \<open>The same collaborators with a database client whose reads throw.\<close>

definition brokenReadEnv :: "nat collaborators" where
  "brokenReadEnv =
     exampleEnv
       \<lparr>findMany := (\<lambda>pid w. Inl ''connection refused''),
        findUnique := (\<lambda>pid w. Inl ''connection refused'')\<rparr>"

text \<open>
  Four scrapers: one that throws on every call, one that returns
  \<^verbatim>\<open>success: false\<close> on every call, one that succeeds with data that has no
  \<^verbatim>\<open>property\<close>, and one that succeeds with property data.
\<close>

definition alwaysThrows :: "nat scrapeAVM" where
  "alwaysThrows addr cty st zc w = (Inl (Some ''timeout''), w)"

definition alwaysFails :: "nat scrapeAVM" where
  "alwaysFails addr cty st zc w =
     (Inr \<lparr>success = False, data = None, error = Some ''blocked'', duration = Some 100\<rparr>, w)"

definition succeedsWithoutProperty :: "nat scrapeAVM" where
  "succeedsWithoutProperty addr cty st zc w =
     (Inr \<lparr>success = True, data = Some \<lparr>property = None\<rparr>, error = None,
           duration = Some 100\<rparr>, w)"

definition succeedsWithProperty :: "nat scrapeAVM" where
  "succeedsWithProperty addr cty st zc w =
     (Inr \<lparr>success = True,
           data = Some \<lparr>property = Some
             \<lparr>pd_address = addr, pd_city = cty, pd_state = st, pd_zipCode = zc,
              pd_latitude = None, pd_longitude = None, pd_propertyType = None,
              pd_bedrooms = None, pd_bathrooms = None, pd_squareFootage = None,
              pd_lotSize = None, pd_yearBuilt = None\<rparr>\<rparr>,
           error = None, duration = Some 100\<rparr>, w)"

text \<open>
  Three configurations of the five providers: all throw; one provider succeeds without
  property data and the others fail; one provider succeeds with property data and
  the others fail or throw.
\<close>

definition allThrow :: "(string \<times> nat scrapeAVM) list" where
  "allThrow = SCRAPERS alwaysThrows alwaysThrows alwaysThrows alwaysThrows alwaysThrows"

definition noneIdentifies :: "(string \<times> nat scrapeAVM) list" where
  "noneIdentifies =
     SCRAPERS alwaysFails succeedsWithoutProperty alwaysFails alwaysFails alwaysFails"

definition oneIdentifies :: "(string \<times> nat scrapeAVM) list" where
  "oneIdentifies =
     SCRAPERS alwaysFails alwaysThrows alwaysFails succeedsWithProperty alwaysFails"

text \<open>
  A scraper that throws a value without a message, and a scraper that throws while
  the clock stands at 0, moving it to 1, and succeeds on any later call. Five
  providers with these and three of the scrapers above.
\<close>

definition throwsValue :: "nat scrapeAVM" where
  "throwsValue addr cty st zc w = (Inl None, w)"

definition succeedsOnRetry :: "nat scrapeAVM" where
  "succeedsOnRetry addr cty st zc w =
     (if w = 0 then (Inl (Some ''cold start''), Suc 0)
      else (Inr \<lparr>success = True, data = Some \<lparr>property = None\<rparr>, error = None,
                 duration = Some 100\<rparr>, w))"

definition mixedOutcomes :: "(string \<times> nat scrapeAVM) list" where
  "mixedOutcomes =
     SCRAPERS succeedsOnRetry alwaysThrows throwsValue succeedsWithProperty alwaysFails"

section \<open>Mean and standard deviation\<close>

text \<open>
  The arithmetic mean and the population standard deviation of a list of numbers,
  written as the specification words them, over the whole list at once. They are
  what the folds of \<^verbatim>\<open>calculateAnalysisMetrics\<close> and \<^verbatim>\<open>calculateStandardDeviation\<close>
  are compared with.
\<close>

definition arithmeticMean :: "real list \<Rightarrow> real" where
  "arithmeticMean xs = sum_list xs / real (length xs)"

definition populationStdDev :: "real list \<Rightarrow> real" where
  "populationStdDev xs =
     sqrt (sum_list (map (\<lambda>x. (x - arithmeticMean xs)\<^sup>2) xs) / real (length xs))"

section \<open>An estimate store\<close>

text \<open>
  Modelled from the spec: the persistence layer behind the database client (the
  Prisma model \<^verbatim>\<open>aVMEstimate\<close> and its database, which are not among the sources).
  The specification has an upsert that creates or replaces the current estimate of
  a (property, provider) pair, and a listing of the estimates of a property, the
  most recently updated first. The store has a clock, and is reachable or not at a
  time; an operation on an unreachable store throws and changes nothing.
\<close>

record store =
  storeClock :: nat
  reachable :: "nat \<Rightarrow> bool"
  avmRows :: "((string \<times> string) \<times> AVMEstimate) list"

definition storeUpsert :: "string \<Rightarrow> AVMData \<Rightarrow> store \<Rightarrow> (string + unit) \<times> store" where
  "storeUpsert pid avmData w =
     (if reachable w (storeClock w) then
        (Inr (),
         w\<lparr>avmRows :=
              ((pid, provider avmData),
               \<lparr>provider = provider avmData, estimate = estimate avmData,
                confidence = confidence avmData, lowRange = lowRange avmData,
                highRange = highRange avmData, lastUpdated = storeClock w\<rparr>)
              # filter (\<lambda>entry. fst entry \<noteq> (pid, provider avmData)) (avmRows w)\<rparr>)
      else (Inl ''database unreachable'', w))"

definition storeFindMany :: "string \<Rightarrow> store \<Rightarrow> string + AVMEstimate list" where
  "storeFindMany pid w =
     (if reachable w (storeClock w) then
        Inr (rev (sort_key lastUpdated
               (map snd (filter (\<lambda>entry. fst (fst entry) = pid) (avmRows w)))))
      else Inl ''database unreachable'')"

text \<open>The timer on the clock of the store.\<close>

definition storeWait :: "nat \<Rightarrow> store \<Rightarrow> store" where
  "storeWait ms w = w\<lparr>storeClock := storeClock w + ms\<rparr>"

definition storeEnv :: "store collaborators" where
  "storeEnv =
     \<lparr>dateNow = storeClock,
      setTimeout = storeWait,
      MD5 = (\<lambda>s. ''0cc175b9c0f1b6a831c399e269772661''),
      findMany = storeFindMany,
      findUnique = (\<lambda>pid w. Inr None),
      upsert = storeUpsert\<rparr>"

definition emptyStore :: store where
  "emptyStore = \<lparr>storeClock = 1000, reachable = (\<lambda>t. True), avmRows = []\<rparr>"

text \<open>
  A scraper as the specification describes the collaborator: it returns a successful
  extraction, with property data, and does nothing else. Five providers with it.
\<close>

definition extractsOnly :: "store scrapeAVM" where
  "extractsOnly addr cty st zc w =
     (Inr \<lparr>success = True,
           data = Some \<lparr>property = Some
             \<lparr>pd_address = addr, pd_city = cty, pd_state = st, pd_zipCode = zc,
              pd_latitude = None, pd_longitude = None, pd_propertyType = None,
              pd_bedrooms = None, pd_bathrooms = None, pd_squareFootage = None,
              pd_lotSize = None, pd_yearBuilt = None\<rparr>\<rparr>,
           error = None, duration = Some 100\<rparr>, w)"

definition allExtract :: "(string \<times> store scrapeAVM) list" where
  "allExtract = SCRAPERS extractsOnly extractsOnly extractsOnly extractsOnly extractsOnly"

section \<open>Properties of the reconciliation\<close>

lemma sum_estimates:
  "foldl (\<lambda>sum est. sum + estimate est) a valid = a + sum_list (map estimate valid)"
  by (induction valid arbitrary: a) simp_all

lemma sum_values:
  "foldl (\<lambda>sum val. sum + val) a (values :: real list) = a + sum_list values"
  by (induction "values" arbitrary: a) simp_all

lemma sum_list_positive:
  "xs \<noteq> [] \<Longrightarrow> \<forall>x \<in> set xs. 0 < x \<Longrightarrow> 0 < sum_list (xs :: real list)"
  by (induction xs) (auto intro: add_pos_nonneg sum_list_nonneg less_imp_le)

lemma meanEstimate_positive:
  assumes "valid \<noteq> []" and "\<forall>e \<in> set valid. isValidPrice (Some (estimate e))"
  shows "0 < meanEstimate valid"
proof -
  have "\<forall>x \<in> set (map estimate valid). 0 < x"
    using assms(2) by (simp add: isValidPrice_def)
  moreover have "map estimate valid \<noteq> []"
    using assms(1) by simp
  ultimately have "0 < sum_list (map estimate valid)"
    by (rule_tac sum_list_positive) auto
  thus ?thesis
    using assms(1) by (simp add: meanEstimate_def sum_estimates)
qed

lemma standardDeviation_nonneg: "0 \<le> calculateStandardDeviation values"
proof (cases "length values \<le> 1")
  case True
  then show ?thesis by (simp add: calculateStandardDeviation_def)
next
  case False
  have "0 \<le> sum_list (map (\<lambda>val. (val - m)\<^sup>2) values)" for m :: real
    by (rule sum_list_nonneg) auto
  then show ?thesis
    using False by (simp add: calculateStandardDeviation_def Let_def sum_values)
qed

lemma validEstimates_idem:
  "validEstimates (validEstimates estimates) = validEstimates estimates"
  by (simp add: validEstimates_def)

lemma metrics_of_valid:
  assumes "validEstimates estimates = v # rest"
  shows "calculateAnalysisMetrics estimates =
     \<lparr>averageEstimate = Math_round (meanEstimate (v # rest)),
      estimateRange =
        \<lparr>min_range = fold min (estimateValues rest) (estimate v),
         max_range = fold max (estimateValues rest) (estimate v)\<rparr>,
      confidence_metrics =
        \<lparr>overall = Math_round (adjustedConfidence (v # rest)),
         byProvider = fst (confidenceLoop (v # rest))\<rparr>\<rparr>"
proof -
  have "estimates \<noteq> []"
    using assms by (auto simp: validEstimates_def)
  thus ?thesis
    using assms by (simp add: calculateAnalysisMetrics_def Let_def)
qed

lemma metrics_degenerate:
  "validEstimates estimates = [] \<Longrightarrow> calculateAnalysisMetrics estimates = degenerateMetrics"
  by (simp add: calculateAnalysisMetrics_def)

lemma sqrt_example_bounds:
  "8164.96 < sqrt (200000000 / 3 :: real)" "sqrt (200000000 / 3 :: real) < 8164.97"
  by (rule real_less_rsqrt, simp add: power2_eq_square)
     (rule real_less_lsqrt, simp_all add: power2_eq_square)

lemma round_example:
  fixes sd :: real
  assumes "8164.96 < sd" "sd < 8164.97"
  shows "Math_round (235 / 3 * max (1 / 2) (1 - sd / 300000)) = 76"
proof -
  have m: "max (1 / 2) (1 - sd / 300000) = 1 - sd / 300000"
    using assms by (simp add: max_def field_simps)
  have "76 \<le> 235 / 3 * (1 - sd / 300000) + 1 / 2"
    using assms by (simp add: field_simps)
  moreover have "235 / 3 * (1 - sd / 300000) + 1 / 2 < 77"
    using assms by (simp add: field_simps)
  ultimately have "\<lfloor>235 / 3 * (1 - sd / 300000) + 1 / 2\<rfloor> = 76"
    by linarith
  thus ?thesis
    by (simp add: Math_round_def m)
qed

text \<open>
  Claim C2. For any three stored estimates with the values 300000, 310000, 290000 and
  the recorded confidences 80, 85, 70, \<^verbatim>\<open>calculateAnalysisMetrics\<close> returns the average
  300000, the range from 290000 to 310000 and the overall confidence 76; that figure
  is the rounded product of the mean confidence (80 + 85 + 70) / 3 and
  max(0.5, 1 - stdDev / mean), where the population standard deviation of the three
  values lies between 8164.96 and 8164.97.
\<close>

theorem reconciliation_example:
  assumes est: "map estimate estimates = [300000, 310000, 290000]"
    and conf: "map confidence estimates = [Some 80, Some 85, Some 70]"
  shows "averageEstimate (calculateAnalysisMetrics estimates) = 300000
    \<and> estimateRange (calculateAnalysisMetrics estimates) =
        \<lparr>min_range = 290000, max_range = 310000\<rparr>
    \<and> overall (confidence_metrics (calculateAnalysisMetrics estimates)) = 76
    \<and> overall (confidence_metrics (calculateAnalysisMetrics estimates)) =
        Math_round ((80 + 85 + 70) / 3 *
          max (1 / 2) (1 - calculateStandardDeviation [300000, 310000, 290000] / 300000))
    \<and> 8164.96 < calculateStandardDeviation [300000, 310000, 290000]
    \<and> calculateStandardDeviation [300000, 310000, 290000] < 8164.97"
proof -
  from est obtain e1 e2 e3 where es: "estimates = [e1, e2, e3]"
    and e: "estimate e1 = 300000" "estimate e2 = 310000" "estimate e3 = 290000"
    by (auto simp: map_eq_Cons_conv)
  from conf es have c: "confidence e1 = Some 80" "confidence e2 = Some 85"
    "confidence e3 = Some 70"
    by simp_all
  have v: "validEstimates estimates = e1 # [e2, e3]"
    using es e by (simp add: validEstimates_def isValidPrice_def)
  have sd: "calculateStandardDeviation [300000, 310000, 290000] = sqrt (200000000 / 3)"
    by (simp add: calculateStandardDeviation_def Let_def)
  have mean: "meanEstimate [e1, e2, e3] = 300000"
    using e by (simp add: meanEstimate_def)
  have oc: "overallConfidence [e1, e2, e3] = 235 / 3"
    using c by (simp add: overallConfidence_def confidenceLoop_def truthy_def)
  have adj: "adjustedConfidence [e1, e2, e3] =
      235 / 3 * max (1 / 2) (1 - calculateStandardDeviation [300000, 310000, 290000] / 300000)"
    using e by (simp add: adjustedConfidence_def consistencyMultiplier_def
        coefficientOfVariation_def estimateValues_def mean oc)
  have r: "Math_round (adjustedConfidence [e1, e2, e3]) = 76"
    unfolding adj sd using round_example [OF sqrt_example_bounds] .
  have avg: "Math_round (meanEstimate [e1, e2, e3]) = 300000"
    by (simp add: mean Math_round_def)
  have rng: "fold min (estimateValues [e2, e3]) (estimate e1) = 290000"
    "fold max (estimateValues [e2, e3]) (estimate e1) = 310000"
    using e by (simp_all add: estimateValues_def)
  have "averageEstimate (calculateAnalysisMetrics estimates) = 300000"
    by (simp add: metrics_of_valid [OF v] avg)
  moreover have "estimateRange (calculateAnalysisMetrics estimates) =
      \<lparr>min_range = 290000, max_range = 310000\<rparr>"
    by (simp add: metrics_of_valid [OF v] rng)
  moreover have "overall (confidence_metrics (calculateAnalysisMetrics estimates)) = 76"
    by (simp add: metrics_of_valid [OF v] r)
  moreover have "overall (confidence_metrics (calculateAnalysisMetrics estimates)) =
        Math_round ((80 + 85 + 70) / 3 *
          max (1 / 2) (1 - calculateStandardDeviation [300000, 310000, 290000] / 300000))"
    by (simp add: metrics_of_valid [OF v] adj)
  ultimately show ?thesis
    using sqrt_example_bounds by (simp add: sd)
qed

theorem reconciliation_example_witness:
  "map estimate exampleEstimates = [300000, 310000, 290000]
   \<and> map confidence exampleEstimates = [Some 80, Some 85, Some 70]
   \<and> averageEstimate (calculateAnalysisMetrics exampleEstimates) = 300000
   \<and> estimateRange (calculateAnalysisMetrics exampleEstimates) =
        \<lparr>min_range = 290000, max_range = 310000\<rparr>
   \<and> overall (confidence_metrics (calculateAnalysisMetrics exampleEstimates)) = 76"
proof -
  have h1: "map estimate exampleEstimates = [300000, 310000, 290000]"
    by (simp add: exampleEstimates_def)
  have h2: "map confidence exampleEstimates = [Some 80, Some 85, Some 70]"
    by (simp add: exampleEstimates_def)
  show ?thesis
    using h1 h2 reconciliation_example [OF h1 h2] by simp
qed

text \<open>
  Claim C5. The statistics are computed over the estimates with
  0 < estimate < 50,000,000 only: \<^verbatim>\<open>calculateAnalysisMetrics\<close> gives the same result
  on a list and on its sublist of such estimates. When no estimate of the list is in
  that range (the empty list included), the result is exactly average 0, range
  {min 0, max 0}, overall confidence 0 and an empty per-provider map.
\<close>

theorem degenerate_without_valid_estimates:
  "validEstimates estimates =
      filter (\<lambda>e. 0 < estimate e \<and> estimate e < 50000000) estimates
   \<and> calculateAnalysisMetrics estimates = calculateAnalysisMetrics (validEstimates estimates)
   \<and> ((\<forall>e \<in> set estimates. \<not> (0 < estimate e \<and> estimate e < 50000000)) \<longrightarrow>
        calculateAnalysisMetrics estimates =
          \<lparr>averageEstimate = 0,
           estimateRange = \<lparr>min_range = 0, max_range = 0\<rparr>,
           confidence_metrics = \<lparr>overall = 0, byProvider = Map.empty\<rparr>\<rparr>)"
proof -
  have f: "validEstimates estimates =
      filter (\<lambda>e. 0 < estimate e \<and> estimate e < 50000000) estimates"
    by (simp add: validEstimates_def isValidPrice_def)
  have same: "calculateAnalysisMetrics estimates =
      calculateAnalysisMetrics (validEstimates estimates)"
  proof (cases "validEstimates estimates")
    case Nil
    have "validEstimates [] = ([] :: AVMEstimate list)"
      by (simp add: validEstimates_def)
    hence "calculateAnalysisMetrics ([] :: AVMEstimate list) = degenerateMetrics"
      by (rule metrics_degenerate)
    with Nil show ?thesis
      by (simp add: metrics_degenerate)
  next
    case (Cons v rest)
    have "validEstimates (validEstimates estimates) = v # rest"
      using Cons validEstimates_idem [of estimates] by simp
    from metrics_of_valid [OF this] metrics_of_valid [OF Cons] show ?thesis
      by simp
  qed
  have "calculateAnalysisMetrics estimates = degenerateMetrics"
    if "\<forall>e \<in> set estimates. \<not> (0 < estimate e \<and> estimate e < 50000000)"
  proof -
    from that have "validEstimates estimates = []"
      unfolding f by (simp add: filter_empty_conv)
    thus ?thesis
      by (rule metrics_degenerate)
  qed
  with f same show ?thesis
    by (simp add: degenerateMetrics_def)
qed

theorem degenerate_without_valid_estimates_witness:
  "list_all (\<lambda>e. \<not> (0 < estimate e \<and> estimate e < 50000000)) invalidEstimates
   \<and> calculateAnalysisMetrics invalidEstimates =
       \<lparr>averageEstimate = 0,
        estimateRange = \<lparr>min_range = 0, max_range = 0\<rparr>,
        confidence_metrics = \<lparr>overall = 0, byProvider = Map.empty\<rparr>\<rparr>
   \<and> calculateAnalysisMetrics [] =
       \<lparr>averageEstimate = 0,
        estimateRange = \<lparr>min_range = 0, max_range = 0\<rparr>,
        confidence_metrics = \<lparr>overall = 0, byProvider = Map.empty\<rparr>\<rparr>"
proof -
  have h: "\<forall>e \<in> set invalidEstimates. \<not> (0 < estimate e \<and> estimate e < 50000000)"
    by (simp add: invalidEstimates_def)
  note a = degenerate_without_valid_estimates
    [of invalidEstimates, THEN conjunct2, THEN conjunct2, THEN mp, OF h]
  have "\<forall>e \<in> set ([] :: AVMEstimate list). \<not> (0 < estimate e \<and> estimate e < 50000000)"
    by simp
  note b = degenerate_without_valid_estimates
    [of "[]", THEN conjunct2, THEN conjunct2, THEN mp, OF this]
  have "list_all (\<lambda>e. \<not> (0 < estimate e \<and> estimate e < 50000000)) invalidEstimates"
    using h by (simp only: list_all_iff)
  from this a b show ?thesis
    by (intro conjI)
qed

text \<open>
  Claim C6, at an estimate whose recorded confidence is 0. The claim has the recorded
  0 enter the average and the per-provider map. The test \<^verbatim>\<open>if (est.confidence)\<close> takes
  0 for absent: for the provider \<^verbatim>\<open>zillow\<close> the default 80 of the table enters
  instead, and the overall confidence of that single estimate is 80, not 0.
\<close>

theorem zero_confidence_replaced_by_default:
  "confidence zeroConfidenceEstimate = Some 0
   \<and> confidenceLoop [zeroConfidenceEstimate] = ([''zillow'' \<mapsto> 80], 80, 1)
   \<and> confidence_metrics (calculateAnalysisMetrics [zeroConfidenceEstimate]) =
       \<lparr>overall = 80, byProvider = [''zillow'' \<mapsto> 80]\<rparr>"
proof -
  have l: "confidenceLoop [zeroConfidenceEstimate] = ([''zillow'' \<mapsto> 80], 80, 1)"
    by (simp add: zeroConfidenceEstimate_def confidenceLoop_def truthy_def
        getDefaultConfidence_def defaultConfidences_def)
  have v: "validEstimates [zeroConfidenceEstimate] = zeroConfidenceEstimate # []"
    by (simp add: validEstimates_def isValidPrice_def zeroConfidenceEstimate_def)
  have "adjustedConfidence [zeroConfidenceEstimate] = 80"
    by (simp add: adjustedConfidence_def overallConfidence_def l consistencyMultiplier_def
        coefficientOfVariation_def calculateStandardDeviation_def estimateValues_def)
  hence "Math_round (adjustedConfidence [zeroConfidenceEstimate]) = 80"
    by (simp add: Math_round_def)
  thus ?thesis
    using l by (simp add: metrics_of_valid [OF v]) (simp add: zeroConfidenceEstimate_def)
qed

text \<open>
  What holds of the confidence that enters for one estimate: a recorded confidence
  other than 0 enters as it is; without a recorded confidence the default of the
  provider enters, and that default is 65 for a provider the table does not list
  and whose name no object inherits.
\<close>

lemma confidenceStep_recorded:
  "confidence est = Some c \<Longrightarrow> c \<noteq> 0 \<Longrightarrow>
     confidenceStep (m, t, n) est = (m(provider est \<mapsto> c), t + c, n + 1)"
  by (simp add: truthy_def)

lemma confidenceStep_absent:
  "confidence est = None \<Longrightarrow>
     confidenceStep (m, t, n) est =
       (m(provider est \<mapsto> getDefaultConfidence (provider est)),
        t + getDefaultConfidence (provider est), n + 1)"
  by (simp add: Let_def)

lemma getDefaultConfidence_unlisted:
  "p \<notin> set inheritedNames \<Longrightarrow> p \<notin> set (map fst defaultConfidences) \<Longrightarrow>
     getDefaultConfidence p = 65"
  by (simp add: getDefaultConfidence_def map_of_eq_None_iff [symmetric])

text \<open>
  The folds of the source compute the arithmetic mean and the population standard
  deviation; for two values the standard deviation is half their distance.
\<close>

lemma meanEstimate_arithmeticMean:
  "meanEstimate valid = arithmeticMean (map estimate valid)"
  by (simp add: meanEstimate_def arithmeticMean_def sum_estimates)

lemma standardDeviation_population:
  "calculateStandardDeviation values = populationStdDev values"
proof (cases "length values \<le> 1")
  case False
  then show ?thesis
    by (simp add: calculateStandardDeviation_def populationStdDev_def arithmeticMean_def
        Let_def sum_values)
next
  case True
  then consider "values = []" | x where "values = [x]"
    by (cases "values"; cases "tl values") auto
  then show ?thesis
  proof cases
    case 1
    then show ?thesis
      by (simp add: calculateStandardDeviation_def populationStdDev_def)
  next
    case 2
    then show ?thesis
      by (simp add: calculateStandardDeviation_def populationStdDev_def arithmeticMean_def)
  qed
qed

lemma multiplier_of_pair:
  assumes "estimate e1 = a" "estimate e2 = b" "0 < a + b"
  shows "consistencyMultiplier [e1, e2] = max (1 / 2) (1 - \<bar>a - b\<bar> / (a + b))"
proof -
  have m: "meanEstimate [e1, e2] = (a + b) / 2"
    using assms by (simp add: meanEstimate_def)
  have "(a - (a + b) / 2)\<^sup>2 + (b - (a + b) / 2)\<^sup>2 = 2 * ((a - b) / 2)\<^sup>2"
    by (simp add: power2_eq_square field_simps)
  hence "calculateStandardDeviation (estimateValues [e1, e2]) = sqrt (((a - b) / 2)\<^sup>2)"
    using assms by (simp add: calculateStandardDeviation_def estimateValues_def Let_def)
  hence sd: "calculateStandardDeviation (estimateValues [e1, e2]) = \<bar>a - b\<bar> / 2"
    by simp
  show ?thesis
    using assms(3) by (simp add: consistencyMultiplier_def coefficientOfVariation_def m sd)
qed

text \<open>
  Claim C8. For every non-empty list of valid estimates the consistency multiplier
  is max(0.5, 1 - stdDev / mean), with the arithmetic mean and the population
  standard deviation of the estimate values, and it lies between 0.5 and 1. For two
  estimates of 100000 and 900000, in either order, it is exactly 0.5.
\<close>

theorem consistency_multiplier_range:
  assumes "valid \<noteq> []"
    and "\<forall>e \<in> set valid. 0 < estimate e \<and> estimate e < 50000000"
  shows "consistencyMultiplier valid =
        max (1 / 2)
          (1 - populationStdDev (map estimate valid) / arithmeticMean (map estimate valid))
    \<and> 1 / 2 \<le> consistencyMultiplier valid
    \<and> consistencyMultiplier valid \<le> 1
    \<and> (map estimate valid = [100000, 900000] \<or> map estimate valid = [900000, 100000] \<longrightarrow>
          consistencyMultiplier valid = 1 / 2)"
proof -
  have ok: "\<forall>e \<in> set valid. isValidPrice (Some (estimate e))"
    using assms(2) by (simp add: isValidPrice_def)
  have "0 \<le> coefficientOfVariation valid"
    unfolding coefficientOfVariation_def
    using standardDeviation_nonneg meanEstimate_positive [OF assms(1) ok] by simp
  hence range: "1 / 2 \<le> consistencyMultiplier valid \<and> consistencyMultiplier valid \<le> 1"
    by (simp add: consistencyMultiplier_def)
  have eq: "consistencyMultiplier valid =
      max (1 / 2)
        (1 - populationStdDev (map estimate valid) / arithmeticMean (map estimate valid))"
    by (simp add: consistencyMultiplier_def coefficientOfVariation_def estimateValues_def
        standardDeviation_population meanEstimate_arithmeticMean)
  have pair: "consistencyMultiplier valid = max (1 / 2) (1 - \<bar>a - b\<bar> / (a + b))"
    if "map estimate valid = [a, b]" "0 < a + b" for a b
  proof -
    from that(1) obtain e1 e2 where "valid = [e1, e2]" "estimate e1 = a" "estimate e2 = b"
      by (auto simp: map_eq_Cons_conv)
    with multiplier_of_pair [OF _ _ that(2)] show ?thesis
      by simp
  qed
  have p1: "consistencyMultiplier valid = 1 / 2"
    if "map estimate valid = [100000, 900000] \<or> map estimate valid = [900000, 100000]"
    using that pair [of 100000 900000] pair [of 900000 100000] by auto
  from eq range p1 show ?thesis
    by blast
qed

theorem consistency_multiplier_range_witness:
  "divergentPair \<noteq> []
   \<and> list_all (\<lambda>e. 0 < estimate e \<and> estimate e < 50000000) divergentPair
   \<and> map estimate divergentPair = [100000, 900000]
   \<and> consistencyMultiplier divergentPair = 1 / 2
   \<and> map estimate (rev divergentPair) = [900000, 100000]
   \<and> consistencyMultiplier (rev divergentPair) = 1 / 2"
proof -
  have h1: "divergentPair \<noteq> []" "rev divergentPair \<noteq> []"
    by (simp_all add: divergentPair_def)
  have h2: "\<forall>e \<in> set divergentPair. 0 < estimate e \<and> estimate e < 50000000"
    "\<forall>e \<in> set (rev divergentPair). 0 < estimate e \<and> estimate e < 50000000"
    by (simp_all add: divergentPair_def)
  have h3: "map estimate divergentPair = [100000, 900000]"
    "map estimate (rev divergentPair) = [900000, 100000]"
    by (simp_all add: divergentPair_def)
  note t1 = consistency_multiplier_range [OF h1(1) h2(1)]
  note t2 = consistency_multiplier_range [OF h1(2) h2(2)]
  from t1 h3(1) have m1: "consistencyMultiplier divergentPair = 1 / 2"
    by blast
  from t2 h3(2) have m2: "consistencyMultiplier (rev divergentPair) = 1 / 2"
    by blast
  have "list_all (\<lambda>e. 0 < estimate e \<and> estimate e < 50000000) divergentPair"
    using h2(1) by (simp only: list_all_iff)
  from h1(1) this h3(1) m1 h3(2) m2 show ?thesis
    by (intro conjI)
qed

section \<open>Properties of the retry loop and the tasks\<close>

declare retryLoop.simps [simp del]

text \<open>With two attempts allowed the loop runs its body once or twice.\<close>

lemma retryLoop_second:
  "retryLoop env name scrape (Suc 0) s =
     (case tryBody env name scrape 2 s of (r2, s2) \<Rightarrow> (r2, 2, s2))"
proof -
  have two: "Suc 0 + 1 = 2" by simp
  show ?thesis
    by (subst retryLoop.simps) (simp only: two RETRY_ATTEMPTS_def, simp split: prod.splits)
qed

lemma retryLoop_first:
  "retryLoop env name scrape 0 s =
     (case tryBody env name scrape 1 s of
        (r1, s1) \<Rightarrow>
          if success r1 then (r1, 1, s1)
          else (case tryBody env name scrape 2 s1 of (r2, s2) \<Rightarrow> (r2, 2, s2)))"
  by (subst retryLoop.simps) (simp add: RETRY_ATTEMPTS_def retryLoop_second split: prod.splits)

lemma tryBody_trace:
  "tryBody env name scrape n (w, tr) = (r, w', tr') \<Longrightarrow>
     \<exists>evs. tr' = tr @ evs \<and> evs \<noteq> [] \<and> (\<forall>e \<in> set evs. e = Scrape name n \<or> e = Delay name (2000 * n))"
  by (auto simp: tryBody_def split: prod.splits sum.splits if_splits)

lemma retryLoop_trace:
  assumes "retryLoop env name scrape 0 (w, tr) = (r, n, w', tr')"
  shows "\<exists>evs. tr' = tr @ evs \<and> FetchEstimates p \<notin> set evs \<and> Reconcile \<notin> set evs"
proof -
  show ?thesis
  proof (cases "tryBody env name scrape 1 (w, tr)")
    case (fields r1 w1 tr1)
    from tryBody_trace[OF fields] obtain e1 where e1: "tr1 = tr @ e1"
      "\<forall>e \<in> set e1. e = Scrape name 1 \<or> e = Delay name (2000 * 1)" by blast
    show ?thesis
    proof (cases "success r1")
      case True
      with assms fields have "tr' = tr1" by (simp add: retryLoop_first)
      with e1 show ?thesis by auto
    next
      case False
      obtain r2 w2 tr2 where f2: "tryBody env name scrape 2 (w1, tr1) = (r2, w2, tr2)"
        by (cases "tryBody env name scrape 2 (w1, tr1)") auto
      from tryBody_trace[OF f2] obtain e2 where e2: "tr2 = tr1 @ e2"
        "\<forall>e \<in> set e2. e = Scrape name 2 \<or> e = Delay name (2000 * 2)" by blast
      from assms fields False f2 have "tr' = tr2" by (simp add: retryLoop_first)
      with e1 e2 have "tr' = tr @ (e1 @ e2)" by simp
      moreover have "FetchEstimates p \<notin> set (e1 @ e2)" "Reconcile \<notin> set (e1 @ e2)"
        using e1(2) e2(2) by auto
      ultimately show ?thesis by blast
    qed
  qed
qed

lemma assign_set:
  "set (assign k v rs) \<subseteq> insert (k, v) (set rs)"
  by (induction k v rs rule: assign.induct) auto

lemma assign_map_of: "map_of (assign k v rs) = (map_of rs)(k \<mapsto> v)"
  by (induction k v rs rule: assign.induct) (auto simp: fun_eq_iff)


lemma allSettled_shape:
  "allSettled env a c s z tasks (rs, st) = (settled, rs', st') \<Longrightarrow>
     length settled = length tasks \<and> (\<forall>x \<in> set settled. \<exists>r. x = Inr r)"
proof (induction tasks arbitrary: rs st settled rs' st')
  case Nil
  then show ?case by simp
next
  case (Cons t ts)
  obtain name scraper where t: "t = (name, scraper)" by (cases t)
  obtain w tr where st: "st = (w, tr)" by (cases st)
  obtain r n st1 where rl: "retryLoop env name (scraper a c s z) 0 st = (r, n, st1)"
    by (cases "retryLoop env name (scraper a c s z) 0 st") auto
  obtain others rs2 st2 where rest: "allSettled env a c s z ts (assign name r rs, st1) = (others, rs2, st2)"
    by (cases "allSettled env a c s z ts (assign name r rs, st1)") auto
  from Cons.prems t rl rest have "settled = Inr r # others"
    by (simp add: scrapingTask_def)
  with Cons.IH[OF rest] show ?case by auto
qed

lemma assign_key_set: "fst ` set (assign k v rs) = insert k (fst ` set rs)"
  by (induction k v rs rule: assign.induct) auto

lemma assign_distinct: "distinct (map fst rs) \<Longrightarrow> distinct (map fst (assign k v rs))"
  by (induction k v rs rule: assign.induct) (auto simp: assign_key_set)

lemma allSettled_key_set:
  "allSettled env a c s z tasks (rs, st) = (settled, rs', st') \<Longrightarrow>
     set (map fst rs') = set (map fst rs) \<union> set (map fst tasks)
     \<and> (distinct (map fst rs) \<longrightarrow> distinct (map fst rs'))"
proof (induction tasks arbitrary: rs st settled rs' st')
  case Nil
  then show ?case by simp
next
  case (Cons t ts)
  obtain name scraper where t: "t = (name, scraper)" by (cases t)
  obtain r n st1 where rl: "retryLoop env name (scraper a c s z) 0 st = (r, n, st1)"
    by (cases "retryLoop env name (scraper a c s z) 0 st") auto
  obtain others rs2 st2 where
    rest: "allSettled env a c s z ts (assign name r rs, st1) = (others, rs2, st2)"
    by (cases "allSettled env a c s z ts (assign name r rs, st1)") auto
  from Cons.prems t rl rest have eq: "rs' = rs2"
    by (simp add: scrapingTask_def)
  from Cons.IH [OF rest] have
    "fst ` set rs2 = insert name (fst ` set rs) \<union> fst ` set ts"
    "distinct (map fst (assign name r rs)) \<longrightarrow> distinct (map fst rs2)"
    by (simp_all add: assign_key_set)
  with eq t assign_distinct [of rs name r] show ?case
    by auto
qed

lemma allSettled_trace:
  "allSettled env a c s z tasks (rs, w, tr) = (settled, rs', w', tr') \<Longrightarrow>
     \<exists>evs. tr' = tr @ evs \<and> FetchEstimates p \<notin> set evs \<and> Reconcile \<notin> set evs"
proof (induction tasks arbitrary: rs w tr settled rs' w' tr')
  case Nil
  then show ?case by simp
next
  case (Cons t ts)
  obtain name scraper where t: "t = (name, scraper)" by (cases t)
  obtain r n w1 tr1 where rl: "retryLoop env name (scraper a c s z) 0 (w, tr) = (r, n, w1, tr1)"
    by (cases "retryLoop env name (scraper a c s z) 0 (w, tr)") auto
  obtain others rs2 w2 tr2 where rest: "allSettled env a c s z ts (assign name r rs, w1, tr1) = (others, rs2, w2, tr2)"
    by (cases "allSettled env a c s z ts (assign name r rs, w1, tr1)") auto
  from Cons.prems t rl rest have eq: "tr' = tr2"
    by (simp add: scrapingTask_def)
  from retryLoop_trace[OF rl, of p] obtain e1 where e1: "tr1 = tr @ e1" "FetchEstimates p \<notin> set e1" "Reconcile \<notin> set e1" by blast
  from Cons.IH[OF rest] obtain e2 where e2: "tr2 = tr1 @ e2" "FetchEstimates p \<notin> set e2" "Reconcile \<notin> set e2" by blast
  have "tr' = tr @ (e1 @ e2)" using eq e1 e2 by simp
  moreover have "FetchEstimates p \<notin> set (e1 @ e2)" "Reconcile \<notin> set (e1 @ e2)" using e1 e2 by auto
  ultimately show ?case by blast
qed

lemma findPropertyId_None:
  "findPropertyId env a c s z rs = None \<longleftrightarrow> (\<forall>r \<in> set rs. \<not> identifies r)"
  by (induction rs) auto

lemma findPropertyId_Some:
  "findPropertyId env a c s z rs = Some h \<Longrightarrow> h = generatePropertyHash env a c s z"
  by (induction rs) (auto split: if_splits)

lemma tryBody_throw:
  "scrape w = (Inl m, w1) \<Longrightarrow> tryBody env name scrape n (w, tr) =
     (\<lparr>success = False, data = None, error = m, duration = Some 0\<rparr>, w1, tr @ [Scrape name n])"
  by (simp add: tryBody_def)

lemma tryBody_fail_first:
  "scrape w = (Inr r, w1) \<Longrightarrow> \<not> success r \<Longrightarrow> tryBody env name scrape 1 (w, tr) =
     (r, delay env 2000 w1, tr @ [Scrape name 1, Delay name 2000])"
  by (simp add: tryBody_def RETRY_ATTEMPTS_def)

lemma tryBody_last:
  "scrape w = (Inr r, w1) \<Longrightarrow> tryBody env name scrape 2 (w, tr) = (r, w1, tr @ [Scrape name 2])"
  by (simp add: tryBody_def RETRY_ATTEMPTS_def)

lemma tryBody_success:
  "scrape w = (Inr r, w1) \<Longrightarrow> success r \<Longrightarrow> tryBody env name scrape n (w, tr) = (r, w1, tr @ [Scrape name n])"
  by (simp add: tryBody_def)

lemma retryLoop_attempts:
  assumes "retryLoop env name scrape 0 s = (r, n, s')"
  shows "(n = 1 \<or> n = 2) \<and> (n = 1 \<longleftrightarrow> success (fst (tryBody env name scrape 1 s))) \<and> (n = 1 \<longrightarrow> success r)"
  using assms by (auto simp: retryLoop_first split: prod.splits if_splits)

lemma tryBody_range:
  assumes "tryBody env name scrape n (w, tr) = (r, w', tr')"
  shows "(\<exists>w1. scrape w = (Inr r, w1))
    \<or> (\<exists>m w1. scrape w = (Inl m, w1)
          \<and> r = \<lparr>success = False, data = None, error = m, duration = Some 0\<rparr>)"
  using assms by (auto simp: tryBody_def split: prod.splits sum.splits if_splits)

lemma retryLoop_range:
  assumes "retryLoop env name scrape 0 s = (r, n, s')"
  shows "\<exists>w. (\<exists>w1. scrape w = (Inr r, w1))
    \<or> (\<exists>m w1. scrape w = (Inl m, w1)
          \<and> r = \<lparr>success = False, data = None, error = m, duration = Some 0\<rparr>)"
proof -
  obtain w tr where s: "s = (w, tr)"
    by (cases s)
  obtain r1 w1 tr1 where b1: "tryBody env name scrape 1 (w, tr) = (r1, w1, tr1)"
    by (cases "tryBody env name scrape 1 (w, tr)") auto
  obtain r2 w2 tr2 where b2: "tryBody env name scrape 2 (w1, tr1) = (r2, w2, tr2)"
    by (cases "tryBody env name scrape 2 (w1, tr1)") auto
  from assms have "r = r1 \<or> r = r2"
    unfolding s by (simp only: retryLoop_first b1 b2 prod.case split: if_splits) auto
  with tryBody_range [OF b1] tryBody_range [OF b2] show ?thesis
    by blast
qed

lemma retryLoop_always_returns:
  assumes "\<forall>w. \<exists>w'. scrape w = (Inr r0, w')"
    and "retryLoop env name scrape 0 s = (r, n, s')"
  shows "r = r0"
proof -
  from retryLoop_range [OF assms(2)] obtain w where
    "(\<exists>w1. scrape w = (Inr r, w1))
      \<or> (\<exists>m w1. scrape w = (Inl m, w1)
            \<and> r = \<lparr>success = False, data = None, error = m, duration = Some 0\<rparr>)"
    by blast
  moreover from assms(1) obtain w' where "scrape w = (Inr r0, w')"
    by blast
  ultimately show ?thesis
    by auto
qed

lemma retryLoop_always_throws:
  assumes "\<forall>w. \<exists>w'. scrape w = (Inl m0, w')"
    and "retryLoop env name scrape 0 s = (r, n, s')"
  shows "r = \<lparr>success = False, data = None, error = m0, duration = Some 0\<rparr>"
proof -
  from retryLoop_range [OF assms(2)] obtain w where
    "(\<exists>w1. scrape w = (Inr r, w1))
      \<or> (\<exists>m w1. scrape w = (Inl m, w1)
            \<and> r = \<lparr>success = False, data = None, error = m, duration = Some 0\<rparr>)"
    by blast
  moreover from assms(1) obtain w' where "scrape w = (Inl m0, w')"
    by blast
  ultimately show ?thesis
    by auto
qed

lemma allSettled_results:
  "allSettled env a c s z tasks (rs, st) = (settled, rs', st') \<Longrightarrow>
     \<forall>(name, r) \<in> set rs'. (name, r) \<in> set rs \<or>
        (\<exists>scraper n st1 st2. (name, scraper) \<in> set tasks \<and>
            retryLoop env name (scraper a c s z) 0 st1 = (r, n, st2))"
proof (induction tasks arbitrary: rs st settled rs' st')
  case Nil
  then show ?case by auto
next
  case (Cons t ts)
  obtain name scraper where t: "t = (name, scraper)" by (cases t)
  obtain r n st1 where rl: "retryLoop env name (scraper a c s z) 0 st = (r, n, st1)"
    by (cases "retryLoop env name (scraper a c s z) 0 st") auto
  obtain others rs2 st2 where rest: "allSettled env a c s z ts (assign name r rs, st1) = (others, rs2, st2)"
    by (cases "allSettled env a c s z ts (assign name r rs, st1)") auto
  from Cons.prems t rl rest have eq: "rs' = rs2"
    by (simp add: scrapingTask_def)
  have here: "\<exists>scraper n st1 st2. (name, scraper) \<in> set (t # ts) \<and>
      retryLoop env name (scraper a c s z) 0 st1 = (r, n, st2)"
    using rl t by (intro exI [of _ scraper] exI [of _ n] exI [of _ st] exI [of _ st1]) simp
  show ?case
  proof (intro ballI, clarify)
    fix nm res
    assume mem: "(nm, res) \<in> set rs'"
      and no: "\<not> (\<exists>scraper n st1 st2. (nm, scraper) \<in> set (t # ts) \<and>
              retryLoop env nm (scraper a c s z) 0 st1 = (res, n, st2))"
    from Cons.IH [OF rest] mem eq
    have "(nm, res) \<in> set (assign name r rs) \<or>
        (\<exists>scraper n st1 st2. (nm, scraper) \<in> set ts \<and>
            retryLoop env nm (scraper a c s z) 0 st1 = (res, n, st2))"
      by blast
    with no have "(nm, res) \<in> set (assign name r rs)"
      by (metis list.set_intros(2))
    with assign_set [of name r rs] have "(nm, res) = (name, r) \<or> (nm, res) \<in> set rs"
      by auto
    with no here show "(nm, res) \<in> set rs"
      by blast
  qed
qed

lemma SCRAPERS_distinct:
  "distinct (map fst (SCRAPERS homes zillow movoto redfin realtor))"
  by (simp add: SCRAPERS_def)

lemma keys_from_empty:
  assumes "distinct (map fst scrapers)"
    and "allSettled env a c s z scrapers ([], st) = (settled, results, st')"
  shows "distinct (map fst results)"
    and "set (map fst results) = set (map fst scrapers)"
    and "length results = length scrapers"
proof -
  from allSettled_key_set [OF assms(2)]
  show d: "distinct (map fst results)" and e: "set (map fst results) = set (map fst scrapers)"
    by simp_all
  have "length results = card (set (map fst results))"
    using d by (metis distinct_card length_map)
  also have "\<dots> = length scrapers"
    unfolding e using assms(1) by (metis distinct_card length_map)
  finally show "length results = length scrapers" .
qed

lemma analyze_tasks:
  assumes "analyzeProperty env scrapers a c s z w0 = (outcome, results, w1, tr)"
  shows "\<exists>settled tr1. allSettled env a c s z scrapers ([], w0, []) = (settled, results, w1, tr1)"
  using assms
  by (auto simp: analyzeProperty_def Let_def split: prod.splits option.splits if_splits)

lemma identifies_iff:
  "identifies r \<longleftrightarrow> success r \<and> (\<exists>d. data r = Some d \<and> property d \<noteq> None)"
  by (auto simp: identifies_def split: option.splits)

text \<open>Three runs on the example collaborators, evaluated.\<close>

lemma allThrow_run:
  "analyzeProperty exampleEnv allThrow ''1 Main St'' ''Austin'' ''TX'' ''78701'' 0 =
     (Inl noSourceMessage,
      [(''homes_com'', \<lparr>success = False, data = None, error = Some ''timeout'', duration = Some 0\<rparr>),
       (''zillow'', \<lparr>success = False, data = None, error = Some ''timeout'', duration = Some 0\<rparr>),
       (''movoto'', \<lparr>success = False, data = None, error = Some ''timeout'', duration = Some 0\<rparr>),
       (''redfin'', \<lparr>success = False, data = None, error = Some ''timeout'', duration = Some 0\<rparr>),
       (''realtor_com'', \<lparr>success = False, data = None, error = Some ''timeout'', duration = Some 0\<rparr>)],
      0,
      [Scrape ''homes_com'' 1, Scrape ''homes_com'' 2, Scrape ''zillow'' 1, Scrape ''zillow'' 2,
       Scrape ''movoto'' 1, Scrape ''movoto'' 2, Scrape ''redfin'' 1, Scrape ''redfin'' 2,
       Scrape ''realtor_com'' 1, Scrape ''realtor_com'' 2])"
  by (simp add: analyzeProperty_def allThrow_def SCRAPERS_def scrapingTask_def retryLoop_first
      tryBody_def alwaysThrows_def Object_values_def identifies_def)

lemma noneIdentifies_run:
  "analyzeProperty exampleEnv noneIdentifies ''1 Main St'' ''Austin'' ''TX'' ''78701'' 0 =
     (Inl noSourceMessage,
      [(''homes_com'', \<lparr>success = False, data = None, error = Some ''blocked'', duration = Some 100\<rparr>),
       (''zillow'', \<lparr>success = True, data = Some \<lparr>property = None\<rparr>, error = None, duration = Some 100\<rparr>),
       (''movoto'', \<lparr>success = False, data = None, error = Some ''blocked'', duration = Some 100\<rparr>),
       (''redfin'', \<lparr>success = False, data = None, error = Some ''blocked'', duration = Some 100\<rparr>),
       (''realtor_com'', \<lparr>success = False, data = None, error = Some ''blocked'', duration = Some 100\<rparr>)],
      8000,
      [Scrape ''homes_com'' 1, Delay ''homes_com'' 2000, Scrape ''homes_com'' 2,
       Scrape ''zillow'' 1,
       Scrape ''movoto'' 1, Delay ''movoto'' 2000, Scrape ''movoto'' 2,
       Scrape ''redfin'' 1, Delay ''redfin'' 2000, Scrape ''redfin'' 2,
       Scrape ''realtor_com'' 1, Delay ''realtor_com'' 2000, Scrape ''realtor_com'' 2])"
  by (simp add: analyzeProperty_def noneIdentifies_def SCRAPERS_def scrapingTask_def retryLoop_first
      tryBody_def alwaysFails_def succeedsWithoutProperty_def Object_values_def identifies_def
      RETRY_ATTEMPTS_def delay_def exampleEnv_def)

lemma oneIdentifies_outcome:
  "\<exists>a. fst (analyzeProperty exampleEnv oneIdentifies ''1 Main St'' ''Austin'' ''TX'' ''78701'' 0) = Inr a"
  by (simp add: analyzeProperty_def oneIdentifies_def SCRAPERS_def scrapingTask_def retryLoop_first
      tryBody_def alwaysFails_def alwaysThrows_def succeedsWithProperty_def Object_values_def identifies_def
      RETRY_ATTEMPTS_def delay_def exampleEnv_def generatePropertyHash_def Let_def)

text \<open>
  What holds of the attempts of one task. A successful first attempt ends the loop. A
  first attempt that returns \<^verbatim>\<open>success: false\<close> is followed by a wait of 2000 ms and
  a second attempt. A first attempt that throws is followed by the second attempt at
  once. In neither case is there a third attempt.
\<close>

lemma first_success_stops:
  assumes "scrape w = (Inr r, w1)" and "success r"
  shows "retryLoop env name scrape 0 (w, tr) = (r, 1, w1, tr @ [Scrape name 1])"
proof -
  have "tryBody env name scrape 1 (w, tr) = (r, w1, tr @ [Scrape name 1])"
    using assms by (rule tryBody_success)
  thus ?thesis
    by (simp only: retryLoop_first prod.case assms(2) if_True)
qed

lemma explicit_failure_waits:
  assumes "scrape w = (Inr r, w1)" and "\<not> success r"
    and "retryLoop env name scrape 0 (w, tr) = (r', n, w', tr')"
  shows "n = 2 \<and> tr' = tr @ [Scrape name 1, Delay name 2000, Scrape name 2]"
proof -
  have b1: "tryBody env name scrape 1 (w, tr) =
      (r, delay env 2000 w1, tr @ [Scrape name 1, Delay name 2000])"
    using assms(1,2) by (rule tryBody_fail_first)
  obtain r2 w2 tr2 where b2:
    "tryBody env name scrape 2 (delay env 2000 w1, tr @ [Scrape name 1, Delay name 2000]) =
       (r2, w2, tr2)"
    by (cases "tryBody env name scrape 2 (delay env 2000 w1, tr @ [Scrape name 1, Delay name 2000])")
      auto
  hence "tr2 = tr @ [Scrape name 1, Delay name 2000, Scrape name 2]"
    by (auto simp: tryBody_def RETRY_ATTEMPTS_def split: prod.splits sum.splits if_splits)
  moreover from assms(3) have "(r2, 2, w2, tr2) = (r', n, w', tr')"
    by (simp only: retryLoop_first b1 prod.case assms(2) if_False b2)
  ultimately show ?thesis
    by simp
qed

lemma thrown_failure_does_not_wait:
  assumes "scrape w = (Inl e, w1)"
    and "retryLoop env name scrape 0 (w, tr) = (r', n, w', tr')"
  shows "n = 2 \<and> tr' = tr @ [Scrape name 1, Scrape name 2]"
proof -
  have b1: "tryBody env name scrape 1 (w, tr) =
      (\<lparr>success = False, data = None, error = e, duration = Some 0\<rparr>, w1,
       tr @ [Scrape name 1])"
    using assms(1) by (rule tryBody_throw)
  obtain r2 w2 tr2 where b2:
    "tryBody env name scrape 2 (w1, tr @ [Scrape name 1]) = (r2, w2, tr2)"
    by (cases "tryBody env name scrape 2 (w1, tr @ [Scrape name 1])") auto
  hence "tr2 = tr @ [Scrape name 1, Scrape name 2]"
    by (auto simp: tryBody_def RETRY_ATTEMPTS_def split: prod.splits sum.splits if_splits)
  moreover have "\<not> success \<lparr>success = False, data = None, error = e, duration = Some 0\<rparr>"
    by simp
  with assms(2) have "(r2, 2, w2, tr2) = (r', n, w', tr')"
    by (simp only: retryLoop_first b1 prod.case if_False b2)
  ultimately show ?thesis
    by simp
qed

text \<open>
  A scraper that fails until a condition of the world holds, brings it about by the
  failing call, and succeeds once it holds, succeeds on the second attempt at the
  latest.
\<close>

lemma retryLoop_succeeds_on_retry:
  assumes loop: "retryLoop env name scrape 0 (w, tr) = (r', n, w', tr')"
    and ok: "success r"
    and ready: "\<forall>w. P w \<longrightarrow> (\<exists>w'. scrape w = (Inr r, w'))"
    and cold: "\<forall>w. \<not> P w \<longrightarrow>
        P (snd (scrape w)) \<and> (\<forall>x. fst (scrape w) = Inr x \<longrightarrow> \<not> success x)"
    and timer: "\<forall>ms w. P w \<longrightarrow> P (setTimeout env ms w)"
  shows "r' = r"
proof (cases "P w")
  case True
  with ready obtain w1 where "scrape w = (Inr r, w1)"
    by blast
  from first_success_stops [where scrape = scrape and w = w, OF this ok] loop show ?thesis
    by simp
next
  case False
  obtain res w1 where sc: "scrape w = (res, w1)"
    by (cases "scrape w")
  from cold False sc have p1: "P w1" and fails: "\<forall>x. res = Inr x \<longrightarrow> \<not> success x"
    by (metis snd_conv, metis fst_conv)
  obtain r1 v1 tr1 where b1: "tryBody env name scrape 1 (w, tr) = (r1, v1, tr1)"
    by (cases "tryBody env name scrape 1 (w, tr)") auto
  from b1 sc fails have n1: "\<not> success r1"
    by (auto simp: tryBody_def split: sum.splits if_splits)
  from b1 sc have "v1 = w1 \<or> v1 = setTimeout env (2000 * 1) w1"
    by (auto simp: tryBody_def delay_def split: sum.splits if_splits)
  with p1 timer have pv: "P v1"
    by auto
  with ready obtain w2 where s2: "scrape v1 = (Inr r, w2)"
    by blast
  have b2: "tryBody env name scrape 2 (v1, tr1) = (r, w2, tr1 @ [Scrape name 2])"
    using s2 ok by (rule tryBody_success)
  from loop have "(r, 2, w2, tr1 @ [Scrape name 2]) = (r', n, w', tr')"
    by (simp only: retryLoop_first b1 prod.case n1 if_False b2)
  thus ?thesis
    by simp
qed

text \<open>
  The upsert of the database client plays no part in a run, and a run changes the
  world only through the calls of the scrapers and the timer.
\<close>

lemma delay_upsert: "delay (env\<lparr>upsert := u\<rparr>) = delay env"
  by (intro ext) (simp add: delay_def)

lemma tryBody_upsert: "tryBody (env\<lparr>upsert := u\<rparr>) = tryBody env"
  by (intro ext) (simp only: tryBody_def delay_upsert)

lemma retryLoop_upsert:
  "retryLoop (env\<lparr>upsert := u\<rparr>) name scrape 0 s = retryLoop env name scrape 0 s"
  by (simp only: retryLoop_first tryBody_upsert)

lemma allSettled_upsert:
  "allSettled (env\<lparr>upsert := u\<rparr>) a c s z tasks rs = allSettled env a c s z tasks rs"
  by (induction tasks arbitrary: rs)
    (simp_all add: scrapingTask_def retryLoop_upsert split: prod.splits)

lemma findPropertyId_upsert:
  "findPropertyId (env\<lparr>upsert := u\<rparr>) a c s z rs = findPropertyId env a c s z rs"
  by (induction rs) (simp_all add: generatePropertyHash_def)

lemma analyzeProperty_upsert:
  "analyzeProperty (env\<lparr>upsert := u\<rparr>) scrapers a c s z w0 = analyzeProperty env scrapers a c s z w0"
proof -
  have f: "fetchAVMEstimates (env\<lparr>upsert := u\<rparr>) = fetchAVMEstimates env"
    by (intro ext) (simp add: fetchAVMEstimates_def)
  have d: "dateNow (env\<lparr>upsert := u\<rparr>) = dateNow env"
    by simp
  show ?thesis
    by (simp only: analyzeProperty_def allSettled_upsert findPropertyId_upsert f d)
qed

lemma tryBody_frame:
  assumes "tryBody env name scrape n (w, tr) = (r, w', tr')"
    and "P w"
    and "\<forall>w. P w \<longrightarrow> P (snd (scrape w))"
    and "\<forall>ms w. P w \<longrightarrow> P (setTimeout env ms w)"
  shows "P w'"
proof -
  obtain res w1 where sc: "scrape w = (res, w1)"
    by (cases "scrape w")
  with assms(2,3) have p1: "P w1"
    by (metis snd_conv)
  from assms(1) sc have "w' = w1 \<or> w' = setTimeout env (2000 * n) w1"
    by (auto simp: tryBody_def delay_def split: sum.splits if_splits)
  with p1 assms(4) show ?thesis
    by auto
qed

lemma retryLoop_frame:
  assumes "retryLoop env name scrape 0 (w, tr) = (r, n, w', tr')"
    and "P w"
    and "\<forall>w. P w \<longrightarrow> P (snd (scrape w))"
    and "\<forall>ms w. P w \<longrightarrow> P (setTimeout env ms w)"
  shows "P w'"
proof -
  obtain r1 w1 tr1 where b1: "tryBody env name scrape 1 (w, tr) = (r1, w1, tr1)"
    by (cases "tryBody env name scrape 1 (w, tr)") auto
  obtain r2 w2 tr2 where b2: "tryBody env name scrape 2 (w1, tr1) = (r2, w2, tr2)"
    by (cases "tryBody env name scrape 2 (w1, tr1)") auto
  note p1 = tryBody_frame [OF b1 assms(2) assms(3) assms(4)]
  note p2 = tryBody_frame [OF b2 p1 assms(3) assms(4)]
  from assms(1) have "w' = w1 \<or> w' = w2"
    by (simp only: retryLoop_first b1 b2 prod.case split: if_splits) auto
  with p1 p2 show ?thesis
    by auto
qed

lemma allSettled_frame:
  assumes "allSettled env a c s z tasks (rs, w, tr) = (settled, rs', w', tr')"
    and "P w"
    and "\<forall>(name, scraper) \<in> set tasks. \<forall>w. P w \<longrightarrow> P (snd (scraper a c s z w))"
    and "\<forall>ms w. P w \<longrightarrow> P (setTimeout env ms w)"
  shows "P w'"
  using assms(1,2,3)
proof (induction tasks arbitrary: rs w tr settled rs' w' tr')
  case Nil
  then show ?case by simp
next
  case (Cons t ts)
  obtain name scraper where t: "t = (name, scraper)" by (cases t)
  obtain r n w1 tr1 where
    rl: "retryLoop env name (scraper a c s z) 0 (w, tr) = (r, n, w1, tr1)"
    by (cases "retryLoop env name (scraper a c s z) 0 (w, tr)") auto
  obtain others rs2 w2 tr2 where
    rest: "allSettled env a c s z ts (assign name r rs, w1, tr1) = (others, rs2, w2, tr2)"
    by (cases "allSettled env a c s z ts (assign name r rs, w1, tr1)") auto
  from Cons.prems(1) t rl rest have eq: "w' = w2"
    by (simp add: scrapingTask_def)
  have here: "\<forall>w. P w \<longrightarrow> P (snd (scraper a c s z w))"
    using Cons.prems(3) t by auto
  have later: "\<forall>(name, scraper) \<in> set ts. \<forall>w. P w \<longrightarrow> P (snd (scraper a c s z w))"
    using Cons.prems(3) by auto
  note p1 = retryLoop_frame [OF rl Cons.prems(2) here assms(4)]
  from Cons.IH [OF rest p1 later] eq show ?case
    by simp
qed

text \<open>A run of five extracting scrapers on the empty store, evaluated.\<close>

lemma allExtract_run_parts:
  "map fst (fst (snd (analyzeProperty storeEnv allExtract ''1 Main St'' ''Austin'' ''TX'' ''78701'' emptyStore))) =
     [''homes_com'', ''zillow'', ''movoto'', ''redfin'', ''realtor_com'']"
  "map (success \<circ> snd) (fst (snd (analyzeProperty storeEnv allExtract ''1 Main St'' ''Austin'' ''TX'' ''78701'' emptyStore))) =
     [True, True, True, True, True]"
  "fst (snd (snd (analyzeProperty storeEnv allExtract ''1 Main St'' ''Austin'' ''TX'' ''78701'' emptyStore))) = emptyStore"
  "\<not> isl (fst (analyzeProperty storeEnv allExtract ''1 Main St'' ''Austin'' ''TX'' ''78701'' emptyStore))"
  "avmEstimates (projr (fst (analyzeProperty storeEnv allExtract ''1 Main St'' ''Austin'' ''TX'' ''78701'' emptyStore))) = []"
  by (simp_all add: analyzeProperty_def allExtract_def SCRAPERS_def scrapingTask_def retryLoop_first
      tryBody_def extractsOnly_def Object_values_def identifies_def storeEnv_def
      generatePropertyHash_def Let_def fetchAVMEstimates_def storeFindMany_def emptyStore_def)

section \<open>Properties of a run\<close>

text \<open>
  Claim C1, as the code has it. The claim lets the run fail exactly when no provider
  produced a successful extraction. The loop that sets \<^verbatim>\<open>propertyId\<close> asks for
  \<^verbatim>\<open>result.success && result.data?.property\<close>: a run in which one provider succeeds
  with data that carries no \<^verbatim>\<open>property\<close>, and the others fail, throws the error all
  the same.
\<close>

theorem success_without_property_fails_run:
  "fst (analyzeProperty exampleEnv noneIdentifies ''1 Main St'' ''Austin'' ''TX'' ''78701'' 0) =
     Inl noSourceMessage
   \<and> map fst (fst (snd (analyzeProperty exampleEnv noneIdentifies
        ''1 Main St'' ''Austin'' ''TX'' ''78701'' 0))) =
       [''homes_com'', ''zillow'', ''movoto'', ''redfin'', ''realtor_com'']
   \<and> map (success \<circ> snd) (fst (snd (analyzeProperty exampleEnv noneIdentifies
        ''1 Main St'' ''Austin'' ''TX'' ''78701'' 0))) =
       [False, True, False, False, False]"
  by (simp add: noneIdentifies_run)

text \<open>
  Claim C1, amended. With a digest that is never empty, \<^verbatim>\<open>analyzeProperty\<close> throws if
  and only if no recorded outcome has \<^verbatim>\<open>success\<close> together with a \<^verbatim>\<open>property\<close> in
  its data. The error thrown is always the one message
  \<^verbatim>\<open>Failed to identify property from any scraping source\<close>, and then the run has
  neither read the stored estimates nor reconciled. A run that returns has
  reconciled, and its figures are those of \<^verbatim>\<open>calculateAnalysisMetrics\<close> on the
  estimates it returns.
\<close>

theorem run_fails_iff_no_provider_identifies:
  assumes md5: "\<forall>s. MD5 env s \<noteq> []"
    and run: "analyzeProperty env scrapers addr cty st zc w0 = (outcome, results, w1, tr)"
  shows "((\<exists>e. outcome = Inl e) \<longleftrightarrow>
          \<not> (\<exists>r \<in> set (Object_values results).
                success r \<and> (\<exists>d. data r = Some d \<and> property d \<noteq> None)))
    \<and> (\<forall>e. outcome = Inl e \<longrightarrow>
          e = noSourceMessage \<and> Reconcile \<notin> set tr \<and> (\<forall>p. FetchEstimates p \<notin> set tr))
    \<and> (\<forall>a. outcome = Inr a \<longrightarrow>
          Reconcile \<in> set tr
          \<and> averageEstimate a = averageEstimate (calculateAnalysisMetrics (avmEstimates a))
          \<and> estimateRange a = estimateRange (calculateAnalysisMetrics (avmEstimates a))
          \<and> confidence_metrics a =
              confidence_metrics (calculateAnalysisMetrics (avmEstimates a)))"
proof -
  obtain settled rs w tr1 where
    tasks: "allSettled env addr cty st zc scrapers ([], w0, []) = (settled, rs, w, tr1)"
    by (cases "allSettled env addr cty st zc scrapers ([], w0, [])") auto
  from allSettled_trace [OF tasks] have quiet:
    "Reconcile \<notin> set tr1" "\<And>p. FetchEstimates p \<notin> set tr1"
    by auto
  let ?pid = "generatePropertyHash env addr cty st zc"
  have nonempty: "?pid \<noteq> []"
    using md5 by (simp add: generatePropertyHash_def Let_def)
  show ?thesis
  proof (cases "findPropertyId env addr cty st zc (Object_values rs)")
    case None
    with run tasks have o: "outcome = Inl noSourceMessage" "results = rs" "tr = tr1"
      by (simp_all add: analyzeProperty_def)
    from None have "\<forall>r \<in> set (Object_values results). \<not> identifies r"
      by (simp add: findPropertyId_None o)
    with o quiet show ?thesis
      by (auto simp: identifies_iff)
  next
    case (Some h)
    from findPropertyId_Some [OF Some] have h: "h = ?pid" .
    from Some have "\<not> (\<forall>r \<in> set (Object_values rs). \<not> identifies r)"
      using findPropertyId_None [of env addr cty st zc "Object_values rs"] by simp
    hence ex: "\<exists>r \<in> set (Object_values rs). identifies r"
      by blast
    from run tasks Some h nonempty obtain a where
      o: "outcome = Inr a" "results = rs" "tr = tr1 @ [FetchEstimates ?pid, Reconcile]"
      and a: "avmEstimates a = fetchAVMEstimates env ?pid w"
        "averageEstimate a =
           averageEstimate (calculateAnalysisMetrics (fetchAVMEstimates env ?pid w))"
        "estimateRange a =
           estimateRange (calculateAnalysisMetrics (fetchAVMEstimates env ?pid w))"
        "confidence_metrics a =
           confidence_metrics (calculateAnalysisMetrics (fetchAVMEstimates env ?pid w))"
      by (auto simp: analyzeProperty_def Let_def)
    from o a ex show ?thesis
      by (auto simp: identifies_iff)
  qed
qed

theorem run_fails_iff_no_provider_identifies_witness:
  "fst (analyzeProperty exampleEnv allThrow ''1 Main St'' ''Austin'' ''TX'' ''78701'' 0) = Inl noSourceMessage
   \<and> Reconcile \<notin> set (snd (snd (snd (analyzeProperty exampleEnv allThrow ''1 Main St'' ''Austin'' ''TX'' ''78701'' 0))))
   \<and> (\<exists>a. fst (analyzeProperty exampleEnv oneIdentifies ''1 Main St'' ''Austin'' ''TX'' ''78701'' 0) = Inr a)
   \<and> Reconcile \<in> set (snd (snd (snd (analyzeProperty exampleEnv oneIdentifies ''1 Main St'' ''Austin'' ''TX'' ''78701'' 0))))"
proof -
  let ?fail = "analyzeProperty exampleEnv allThrow ''1 Main St'' ''Austin'' ''TX'' ''78701'' 0"
  let ?ok = "analyzeProperty exampleEnv oneIdentifies ''1 Main St'' ''Austin'' ''TX'' ''78701'' 0"
  have md5: "\<forall>s. MD5 exampleEnv s \<noteq> []"
    by (simp add: exampleEnv_def)
  have f: "?fail = (fst ?fail, fst (snd ?fail), fst (snd (snd ?fail)), snd (snd (snd ?fail)))"
    by simp
  have k: "?ok = (fst ?ok, fst (snd ?ok), fst (snd (snd ?ok)), snd (snd (snd ?ok)))"
    by simp
  note tf = run_fails_iff_no_provider_identifies [OF md5 f]
  note tk = run_fails_iff_no_provider_identifies [OF md5 k]
  have out: "fst ?fail = Inl noSourceMessage"
    by (simp add: allThrow_run)
  from tf out have "Reconcile \<notin> set (snd (snd (snd ?fail)))"
    by blast
  moreover from oneIdentifies_outcome obtain a where a: "fst ?ok = Inr a"
    by blast
  with tk have "Reconcile \<in> set (snd (snd (snd ?ok)))"
    by blast
  ultimately show ?thesis
    using out a by blast
qed

text \<open>
  Claim C3, at a scraper that throws on every call. The claim has the loop wait
  \<^verbatim>\<open>2000 * attempts\<close> before each retry, whether the attempt failed by
  \<^verbatim>\<open>success: false\<close> or by throwing. The wait stands in the \<^verbatim>\<open>try\<close> block after a
  result with \<^verbatim>\<open>success: false\<close>; the \<^verbatim>\<open>catch\<close> block has none. Both providers are
  attempted twice, the number of attempts allowed; the one that returns
  \<^verbatim>\<open>success: false\<close> waits 2000 ms in between, the one that throws is retried at
  once and the clock has not moved.
\<close>

theorem thrown_failure_retried_without_wait:
  "retryLoop exampleEnv ''zillow'' (alwaysThrows ''1 Main St'' ''Austin'' ''TX'' ''78701'') 0 (0, []) =
     (\<lparr>success = False, data = None, error = Some ''timeout'', duration = Some 0\<rparr>, 2, 0,
      [Scrape ''zillow'' 1, Scrape ''zillow'' 2])
   \<and> retryLoop exampleEnv ''zillow'' (alwaysFails ''1 Main St'' ''Austin'' ''TX'' ''78701'') 0 (0, []) =
     (\<lparr>success = False, data = None, error = Some ''blocked'', duration = Some 100\<rparr>, 2, 2000,
      [Scrape ''zillow'' 1, Delay ''zillow'' 2000, Scrape ''zillow'' 2])
   \<and> RETRY_ATTEMPTS = 2"
  by (simp add: retryLoop_first tryBody_def alwaysThrows_def alwaysFails_def RETRY_ATTEMPTS_def
      delay_def exampleEnv_def)

text \<open>
  Claim C4, as the code has it. The claim has the estimate of every provider whose
  outcome succeeded upserted into the persistence layer before \<^verbatim>\<open>analyzeProperty\<close>
  returns. \<^verbatim>\<open>analyzeProperty\<close> calls no write of the persistence layer. With five
  scrapers that return a successful extraction and do nothing else, on an empty
  store: all five outcomes succeed, the run returns, the store is still empty and
  the analysis lists no estimate.
\<close>

theorem successes_leave_store_unchanged:
  "map (success \<circ> snd)
      (fst (snd (analyzeProperty storeEnv allExtract ''1 Main St'' ''Austin'' ''TX'' ''78701''
         emptyStore))) = [True, True, True, True, True]
   \<and> avmRows (fst (snd (snd (analyzeProperty storeEnv allExtract
        ''1 Main St'' ''Austin'' ''TX'' ''78701'' emptyStore)))) = []
   \<and> \<not> isl (fst (analyzeProperty storeEnv allExtract ''1 Main St'' ''Austin'' ''TX'' ''78701''
        emptyStore))
   \<and> avmEstimates (projr (fst (analyzeProperty storeEnv allExtract
        ''1 Main St'' ''Austin'' ''TX'' ''78701'' emptyStore))) = []"
  by (simp add: allExtract_run_parts) (simp add: emptyStore_def)

text \<open>
  Claim C4, amended. \<^verbatim>\<open>analyzeProperty\<close> performs no upsert of its own and leaves
  persistence to the scrapers: whatever holds of the world before the run and is
  kept by every call of a configured scraper and by the timer holds when
  \<^verbatim>\<open>analyzeProperty\<close> ends, by returning or by throwing; and the run is the same
  whatever the upsert of the database client does.
\<close>

theorem persistence_left_to_scrapers:
  assumes "analyzeProperty env scrapers addr cty st zc w0 = (outcome, results, w1, tr)"
    and "P w0"
    and "\<forall>(name, scraper) \<in> set scrapers. \<forall>w. P w \<longrightarrow> P (snd (scraper addr cty st zc w))"
    and "\<forall>ms w. P w \<longrightarrow> P (setTimeout env ms w)"
  shows "P w1
    \<and> (\<forall>u. analyzeProperty (env\<lparr>upsert := u\<rparr>) scrapers addr cty st zc w0 =
          (outcome, results, w1, tr))"
proof -
  from analyze_tasks [OF assms(1)] obtain settled tr1 where
    tasks: "allSettled env addr cty st zc scrapers ([], w0, []) = (settled, results, w1, tr1)"
    by blast
  from allSettled_frame [OF tasks assms(2) assms(3) assms(4)] have "P w1" .
  thus ?thesis
    using assms(1) by (simp add: analyzeProperty_upsert)
qed

theorem persistence_left_to_scrapers_witness:
  "avmRows emptyStore = []
   \<and> avmRows (fst (snd (snd (analyzeProperty storeEnv allExtract
        ''1 Main St'' ''Austin'' ''TX'' ''78701'' emptyStore)))) = []
   \<and> analyzeProperty (storeEnv\<lparr>upsert := (\<lambda>pid avmData w. (Inl ''refused'', w))\<rparr>) allExtract
        ''1 Main St'' ''Austin'' ''TX'' ''78701'' emptyStore =
      analyzeProperty storeEnv allExtract ''1 Main St'' ''Austin'' ''TX'' ''78701'' emptyStore"
proof -
  let ?run = "analyzeProperty storeEnv allExtract ''1 Main St'' ''Austin'' ''TX'' ''78701'' emptyStore"
  have r: "?run = (fst ?run, fst (snd ?run), fst (snd (snd ?run)), snd (snd (snd ?run)))"
    by simp
  have h0: "avmRows emptyStore = []"
    by (simp add: emptyStore_def)
  have h1: "\<forall>(name, scraper) \<in> set allExtract. \<forall>w. avmRows w = [] \<longrightarrow>
      avmRows (snd (scraper ''1 Main St'' ''Austin'' ''TX'' ''78701'' w)) = []"
    by (simp add: allExtract_def SCRAPERS_def extractsOnly_def)
  have h2: "\<forall>ms w. avmRows w = [] \<longrightarrow> avmRows (setTimeout storeEnv ms w) = []"
    by (simp add: storeEnv_def storeWait_def)
  note t = persistence_left_to_scrapers
    [of storeEnv allExtract _ _ _ _ emptyStore _ _ _ _ "\<lambda>w. avmRows w = []", OF r h0 h1 h2]
  from t have a: "avmRows (fst (snd (snd ?run))) = []"
    by blast
  from t have "analyzeProperty (storeEnv\<lparr>upsert := (\<lambda>pid avmData w. (Inl ''refused'', w))\<rparr>)
      allExtract ''1 Main St'' ''Austin'' ''TX'' ''78701'' emptyStore = ?run"
    using r by metis
  with h0 a show ?thesis
    by (intro conjI)
qed

text \<open>
  Claim C7. For providers with distinct names, whatever each scraper returns or
  throws: \<^verbatim>\<open>scrapingResults\<close> has exactly one entry per configured provider (as many
  entries as providers, under distinct keys that are the configured names), and a
  run that returns carries that object; every task promise fulfils, none rejects;
  the entry of a provider is a result that a call of its scraper returned, or the
  failed outcome made of what a call of it threw; a scraper that returns the same
  result in every world has that result recorded; a scraper that throws the same in
  every world is recorded with \<^verbatim>\<open>success: false\<close>, no data, the message of the value
  thrown if it has one, and duration 0; and a scraper that fails or throws until a
  condition holds that its failing call brings about and that every scraper and the
  timer keep, and that returns one successful result once it holds, is recorded
  with that result, the outcome of its last attempt.
\<close>

theorem one_outcome_per_provider:
  assumes "distinct (map fst scrapers)"
    and "analyzeProperty env scrapers addr cty st zc w0 = (outcome, results, w1, tr)"
  shows "length results = length scrapers
    \<and> distinct (map fst results)
    \<and> set (map fst results) = set (map fst scrapers)
    \<and> (\<forall>a. outcome = Inr a \<longrightarrow> scrapingResults a = results)
    \<and> list_all (\<lambda>settled. \<exists>r. settled = Inr r)
         (fst (allSettled env addr cty st zc scrapers ([], w0, [])))
    \<and> (\<forall>(name, scraper) \<in> set scrapers. \<exists>r. map_of results name = Some r
          \<and> (\<exists>w. (\<exists>w'. scraper addr cty st zc w = (Inr r, w'))
                \<or> (\<exists>m w'. scraper addr cty st zc w = (Inl m, w')
                      \<and> r = \<lparr>success = False, data = None, error = m, duration = Some 0\<rparr>)))
    \<and> (\<forall>(name, scraper) \<in> set scrapers. \<forall>r.
          (\<forall>w. \<exists>w'. scraper addr cty st zc w = (Inr r, w')) \<longrightarrow>
          map_of results name = Some r)
    \<and> (\<forall>(name, scraper) \<in> set scrapers. \<forall>m.
          (\<forall>w. \<exists>w'. scraper addr cty st zc w = (Inl m, w')) \<longrightarrow>
          map_of results name =
            Some \<lparr>success = False, data = None, error = m, duration = Some 0\<rparr>)
    \<and> (\<forall>(name, scraper) \<in> set scrapers. \<forall>P r.
          success r
          \<and> (\<forall>(other, scraper') \<in> set scrapers. \<forall>w. P w \<longrightarrow>
                P (snd (scraper' addr cty st zc w)))
          \<and> (\<forall>ms w. P w \<longrightarrow> P (setTimeout env ms w))
          \<and> (\<forall>w. P w \<longrightarrow> (\<exists>w'. scraper addr cty st zc w = (Inr r, w')))
          \<and> (\<forall>w. \<not> P w \<longrightarrow> P (snd (scraper addr cty st zc w))
                \<and> (\<forall>x. fst (scraper addr cty st zc w) = Inr x \<longrightarrow> \<not> success x))
          \<longrightarrow> map_of results name = Some r)"
proof -
  from analyze_tasks [OF assms(2)] obtain settled tr1 where
    tasks: "allSettled env addr cty st zc scrapers ([], w0, []) = (settled, results, w1, tr1)"
    by blast
  note keys = keys_from_empty [OF assms(1) tasks]
  have field: "\<forall>a. outcome = Inr a \<longrightarrow> scrapingResults a = results"
    using assms(2)
    by (auto simp: analyzeProperty_def Let_def split: prod.splits option.splits if_splits)
  have settled: "list_all (\<lambda>settled. \<exists>r. settled = Inr r)
         (fst (allSettled env addr cty st zc scrapers ([], w0, [])))"
    using allSettled_shape [OF tasks] by (simp add: tasks list_all_iff)
  have entry: "\<exists>r n w tr w' tr'. map_of results name = Some r
      \<and> retryLoop env name (scraper addr cty st zc) 0 (w, tr) = (r, n, w', tr')"
    if mem: "(name, scraper) \<in> set scrapers" for name scraper
  proof -
    from mem have "name \<in> set (map fst results)"
      unfolding keys(2) by force
    then obtain r where r: "(name, r) \<in> set results"
      by auto
    with allSettled_results [OF tasks] obtain scraper' n s s' where
      s': "(name, scraper') \<in> set scrapers"
      and loop: "retryLoop env name (scraper' addr cty st zc) 0 s = (r, n, s')"
      by auto
    from assms(1) mem s' have "scraper' = scraper"
      by (meson eq_key_imp_eq_value)
    moreover from keys(1) r have "map_of results name = Some r"
      by (metis map_of_is_SomeI)
    ultimately show ?thesis
      using loop by (cases s; cases s') blast
  qed
  have range: "\<exists>r. map_of results name = Some r
          \<and> (\<exists>w. (\<exists>w'. scraper addr cty st zc w = (Inr r, w'))
                \<or> (\<exists>m w'. scraper addr cty st zc w = (Inl m, w')
                      \<and> r = \<lparr>success = False, data = None, error = m, duration = Some 0\<rparr>))"
    if mem: "(name, scraper) \<in> set scrapers" for name scraper
  proof -
    from entry [OF mem] obtain r n w tr w' tr' where
      r: "map_of results name = Some r"
      and loop: "retryLoop env name (scraper addr cty st zc) 0 (w, tr) = (r, n, w', tr')"
      by blast
    from retryLoop_range [OF loop] r show ?thesis
      by blast
  qed
  have returned: "map_of results name = Some r"
    if mem: "(name, scraper) \<in> set scrapers"
      and always: "\<forall>w. \<exists>w'. scraper addr cty st zc w = (Inr r, w')"
    for name scraper r
  proof -
    from entry [OF mem] obtain r' n w tr w' tr' where
      r: "map_of results name = Some r'"
      and loop: "retryLoop env name (scraper addr cty st zc) 0 (w, tr) = (r', n, w', tr')"
      by blast
    from retryLoop_always_returns [OF always loop] r show ?thesis
      by simp
  qed
  have converted: "map_of results name =
      Some \<lparr>success = False, data = None, error = m, duration = Some 0\<rparr>"
    if mem: "(name, scraper) \<in> set scrapers"
      and always: "\<forall>w. \<exists>w'. scraper addr cty st zc w = (Inl m, w')"
    for name scraper m
  proof -
    from entry [OF mem] obtain r' n w tr w' tr' where
      r: "map_of results name = Some r'"
      and loop: "retryLoop env name (scraper addr cty st zc) 0 (w, tr) = (r', n, w', tr')"
      by blast
    from retryLoop_always_throws [OF always loop] r show ?thesis
      by simp
  qed
  have retried: "map_of results name = Some r"
    if mem: "(name, scraper) \<in> set scrapers"
      and ok: "success r"
      and timer: "\<forall>ms w. P w \<longrightarrow> P (setTimeout env ms w)"
      and ready: "\<forall>w. P w \<longrightarrow> (\<exists>w'. scraper addr cty st zc w = (Inr r, w'))"
      and cold: "\<forall>w. \<not> P w \<longrightarrow> P (snd (scraper addr cty st zc w))
                \<and> (\<forall>x. fst (scraper addr cty st zc w) = Inr x \<longrightarrow> \<not> success x)"
    for name scraper P r
  proof -
    from entry [OF mem] obtain r' n w tr w' tr' where
      r: "map_of results name = Some r'"
      and loop: "retryLoop env name (scraper addr cty st zc) 0 (w, tr) = (r', n, w', tr')"
      by blast
    from retryLoop_succeeds_on_retry [OF loop ok ready cold timer] r show ?thesis
      by simp
  qed
  have c6: "\<forall>(name, scraper) \<in> set scrapers. \<exists>r. map_of results name = Some r
          \<and> (\<exists>w. (\<exists>w'. scraper addr cty st zc w = (Inr r, w'))
                \<or> (\<exists>m w'. scraper addr cty st zc w = (Inl m, w')
                      \<and> r = \<lparr>success = False, data = None, error = m, duration = Some 0\<rparr>))"
    using range by blast
  have c7: "\<forall>(name, scraper) \<in> set scrapers. \<forall>r.
          (\<forall>w. \<exists>w'. scraper addr cty st zc w = (Inr r, w')) \<longrightarrow>
          map_of results name = Some r"
    using returned by blast
  have c8: "\<forall>(name, scraper) \<in> set scrapers. \<forall>m.
          (\<forall>w. \<exists>w'. scraper addr cty st zc w = (Inl m, w')) \<longrightarrow>
          map_of results name =
            Some \<lparr>success = False, data = None, error = m, duration = Some 0\<rparr>"
    using converted by blast
  have last: "\<forall>(name, scraper) \<in> set scrapers. \<forall>P r.
          success r
          \<and> (\<forall>(other, scraper') \<in> set scrapers. \<forall>w. P w \<longrightarrow>
                P (snd (scraper' addr cty st zc w)))
          \<and> (\<forall>ms w. P w \<longrightarrow> P (setTimeout env ms w))
          \<and> (\<forall>w. P w \<longrightarrow> (\<exists>w'. scraper addr cty st zc w = (Inr r, w')))
          \<and> (\<forall>w. \<not> P w \<longrightarrow> P (snd (scraper addr cty st zc w))
                \<and> (\<forall>x. fst (scraper addr cty st zc w) = Inr x \<longrightarrow> \<not> success x))
          \<longrightarrow> map_of results name = Some r"
  proof (intro ballI, clarify)
    fix name scraper P r
    assume "(name, scraper) \<in> set scrapers" "success r"
      "\<forall>ms w. P w \<longrightarrow> P (setTimeout env ms w)"
      "\<forall>w. P w \<longrightarrow> (\<exists>w'. scraper addr cty st zc w = (Inr r, w'))"
      "\<forall>w. \<not> P w \<longrightarrow> P (snd (scraper addr cty st zc w))
                \<and> (\<forall>x. fst (scraper addr cty st zc w) = Inr x \<longrightarrow> \<not> success x)"
    thus "map_of results name = Some r"
      by (rule retried)
  qed
  from keys(3) keys(1) keys(2) field settled c6 c7 c8 last show ?thesis
    by (intro conjI)
qed

theorem one_outcome_per_provider_witness:
  "distinct (map fst mixedOutcomes)
   \<and> length (fst (snd (analyzeProperty exampleEnv mixedOutcomes
        ''1 Main St'' ''Austin'' ''TX'' ''78701'' 0))) = 5
   \<and> map_of (fst (snd (analyzeProperty exampleEnv mixedOutcomes
        ''1 Main St'' ''Austin'' ''TX'' ''78701'' 0))) ''homes_com'' =
       Some \<lparr>success = True, data = Some \<lparr>property = None\<rparr>, error = None,
             duration = Some 100\<rparr>
   \<and> map_of (fst (snd (analyzeProperty exampleEnv mixedOutcomes
        ''1 Main St'' ''Austin'' ''TX'' ''78701'' 0))) ''zillow'' =
       Some \<lparr>success = False, data = None, error = Some ''timeout'', duration = Some 0\<rparr>
   \<and> map_of (fst (snd (analyzeProperty exampleEnv mixedOutcomes
        ''1 Main St'' ''Austin'' ''TX'' ''78701'' 0))) ''movoto'' =
       Some \<lparr>success = False, data = None, error = None, duration = Some 0\<rparr>
   \<and> map_option success (map_of (fst (snd (analyzeProperty exampleEnv mixedOutcomes
        ''1 Main St'' ''Austin'' ''TX'' ''78701'' 0))) ''redfin'') = Some True
   \<and> map_of (fst (snd (analyzeProperty exampleEnv mixedOutcomes
        ''1 Main St'' ''Austin'' ''TX'' ''78701'' 0))) ''realtor_com'' =
       Some \<lparr>success = False, data = None, error = Some ''blocked'', duration = Some 100\<rparr>"
proof -
  let ?run = "analyzeProperty exampleEnv mixedOutcomes ''1 Main St'' ''Austin'' ''TX'' ''78701'' 0"
  let ?results = "fst (snd ?run)"
  have d: "distinct (map fst mixedOutcomes)"
    by (simp add: mixedOutcomes_def SCRAPERS_def)
  have r: "?run = (fst ?run, ?results, fst (snd (snd ?run)), snd (snd (snd ?run)))"
    by simp
  note t = one_outcome_per_provider [OF d r]
  note c1 = t [THEN conjunct1]
  note c7 = t [THEN conjunct2, THEN conjunct2, THEN conjunct2, THEN conjunct2, THEN conjunct2,
    THEN conjunct2, THEN conjunct1]
  note c8 = t [THEN conjunct2, THEN conjunct2, THEN conjunct2, THEN conjunct2, THEN conjunct2,
    THEN conjunct2, THEN conjunct2, THEN conjunct1]
  note c9 = t [THEN conjunct2, THEN conjunct2, THEN conjunct2, THEN conjunct2, THEN conjunct2,
    THEN conjunct2, THEN conjunct2, THEN conjunct2]
  from c1 have "length ?results = length mixedOutcomes" .
  hence l: "length ?results = 5"
    by (simp add: mixedOutcomes_def SCRAPERS_def)
  from c7 have returns: "\<forall>(name, scraper) \<in> set mixedOutcomes. \<forall>r.
      (\<forall>w. \<exists>w'. scraper ''1 Main St'' ''Austin'' ''TX'' ''78701'' w = (Inr r, w')) \<longrightarrow>
      map_of ?results name = Some r"
    .
  from c8 have throws: "\<forall>(name, scraper) \<in> set mixedOutcomes. \<forall>m.
      (\<forall>w. \<exists>w'. scraper ''1 Main St'' ''Austin'' ''TX'' ''78701'' w = (Inl m, w')) \<longrightarrow>
      map_of ?results name =
        Some \<lparr>success = False, data = None, error = m, duration = Some 0\<rparr>"
    .
  from c9 have retried: "\<forall>(name, scraper) \<in> set mixedOutcomes. \<forall>P r.
          success r
          \<and> (\<forall>(other, scraper') \<in> set mixedOutcomes. \<forall>w. P w \<longrightarrow>
                P (snd (scraper' ''1 Main St'' ''Austin'' ''TX'' ''78701'' w)))
          \<and> (\<forall>ms w. P w \<longrightarrow> P (setTimeout exampleEnv ms w))
          \<and> (\<forall>w. P w \<longrightarrow> (\<exists>w'. scraper ''1 Main St'' ''Austin'' ''TX'' ''78701'' w = (Inr r, w')))
          \<and> (\<forall>w. \<not> P w \<longrightarrow> P (snd (scraper ''1 Main St'' ''Austin'' ''TX'' ''78701'' w))
                \<and> (\<forall>x. fst (scraper ''1 Main St'' ''Austin'' ''TX'' ''78701'' w) = Inr x \<longrightarrow>
                      \<not> success x))
          \<longrightarrow> map_of ?results name = Some r"
    .
  have m1: "(''homes_com'', succeedsOnRetry) \<in> set mixedOutcomes"
    and m2: "(''zillow'', alwaysThrows) \<in> set mixedOutcomes"
    and m3: "(''movoto'', throwsValue) \<in> set mixedOutcomes"
    and m4: "(''redfin'', succeedsWithProperty) \<in> set mixedOutcomes"
    and m5: "(''realtor_com'', alwaysFails) \<in> set mixedOutcomes"
    by (simp_all add: mixedOutcomes_def SCRAPERS_def)
  have keep: "\<forall>(other, scraper') \<in> set mixedOutcomes. \<forall>w. 0 < w \<longrightarrow>
      0 < snd (scraper' ''1 Main St'' ''Austin'' ''TX'' ''78701'' w)"
    by (simp add: mixedOutcomes_def SCRAPERS_def succeedsOnRetry_def alwaysThrows_def
        throwsValue_def succeedsWithProperty_def alwaysFails_def)
  have timer: "\<forall>ms w. 0 < w \<longrightarrow> 0 < setTimeout exampleEnv ms w"
    by (simp add: exampleEnv_def)
  have ready: "\<forall>w. 0 < w \<longrightarrow> (\<exists>w'. succeedsOnRetry ''1 Main St'' ''Austin'' ''TX'' ''78701'' w =
      (Inr \<lparr>success = True, data = Some \<lparr>property = None\<rparr>, error = None,
            duration = Some 100\<rparr>, w'))"
    by (simp add: succeedsOnRetry_def)
  have cold: "\<forall>w. \<not> 0 < w \<longrightarrow>
      0 < snd (succeedsOnRetry ''1 Main St'' ''Austin'' ''TX'' ''78701'' w)
      \<and> (\<forall>x. fst (succeedsOnRetry ''1 Main St'' ''Austin'' ''TX'' ''78701'' w) = Inr x \<longrightarrow>
            \<not> success x)"
    by (simp add: succeedsOnRetry_def)
  from retried [THEN bspec, OF m1] have "\<forall>P r.
          success r
          \<and> (\<forall>(other, scraper') \<in> set mixedOutcomes. \<forall>w. P w \<longrightarrow>
                P (snd (scraper' ''1 Main St'' ''Austin'' ''TX'' ''78701'' w)))
          \<and> (\<forall>ms w. P w \<longrightarrow> P (setTimeout exampleEnv ms w))
          \<and> (\<forall>w. P w \<longrightarrow> (\<exists>w'. succeedsOnRetry ''1 Main St'' ''Austin'' ''TX'' ''78701'' w = (Inr r, w')))
          \<and> (\<forall>w. \<not> P w \<longrightarrow> P (snd (succeedsOnRetry ''1 Main St'' ''Austin'' ''TX'' ''78701'' w))
                \<and> (\<forall>x. fst (succeedsOnRetry ''1 Main St'' ''Austin'' ''TX'' ''78701'' w) = Inr x \<longrightarrow>
                      \<not> success x))
          \<longrightarrow> map_of ?results ''homes_com'' = Some r"
    by (simp only: prod.case)
  from this [THEN spec, of "\<lambda>w. 0 < w", THEN spec,
      of "\<lparr>success = True, data = Some \<lparr>property = None\<rparr>, error = None, duration = Some 100\<rparr>"]
    keep timer ready cold
  have hom: "map_of ?results ''homes_com'' =
      Some \<lparr>success = True, data = Some \<lparr>property = None\<rparr>, error = None, duration = Some 100\<rparr>"
    by (elim impE) (intro conjI, simp, assumption+)
  have "\<forall>w. \<exists>w'. alwaysThrows ''1 Main St'' ''Austin'' ''TX'' ''78701'' w =
      (Inl (Some ''timeout''), w')"
    by (simp add: alwaysThrows_def)
  with throws [THEN bspec, OF m2] have zil: "map_of ?results ''zillow'' =
      Some \<lparr>success = False, data = None, error = Some ''timeout'', duration = Some 0\<rparr>"
    by (simp only: prod.case)
  have "\<forall>w. \<exists>w'. throwsValue ''1 Main St'' ''Austin'' ''TX'' ''78701'' w = (Inl None, w')"
    by (simp add: throwsValue_def)
  with throws [THEN bspec, OF m3] have mov: "map_of ?results ''movoto'' =
      Some \<lparr>success = False, data = None, error = None, duration = Some 0\<rparr>"
    by (simp only: prod.case)
  obtain found where found:
    "\<forall>w. \<exists>w'. succeedsWithProperty ''1 Main St'' ''Austin'' ''TX'' ''78701'' w = (Inr found, w')"
    "success found"
    by (simp add: succeedsWithProperty_def)
  with returns [THEN bspec, OF m4] have "map_of ?results ''redfin'' = Some found"
    by (simp only: prod.case)
  with found(2) have red: "map_option success (map_of ?results ''redfin'') = Some True"
    by simp
  have "\<forall>w. \<exists>w'. alwaysFails ''1 Main St'' ''Austin'' ''TX'' ''78701'' w =
      (Inr \<lparr>success = False, data = None, error = Some ''blocked'', duration = Some 100\<rparr>, w')"
    by (simp add: alwaysFails_def)
  with returns [THEN bspec, OF m5] have rea: "map_of ?results ''realtor_com'' =
      Some \<lparr>success = False, data = None, error = Some ''blocked'', duration = Some 100\<rparr>"
    by (simp only: prod.case)
  from d l hom zil mov red rea show ?thesis
    by (intro conjI)
qed

text \<open>
  Claim C10. \<^verbatim>\<open>getPropertyAnalysis\<close> never throws. It returns \<^verbatim>\<open>null\<close> when the read
  of the property throws, whatever the error, and the same \<^verbatim>\<open>null\<close> when the
  property is unknown; only a property that is found gives an analysis.
\<close>

theorem lookup_failure_gives_null:
  "(\<forall>err. findUnique env pid w = Inl err \<longrightarrow> getPropertyAnalysis env pid w = Inr None)
   \<and> (findUnique env pid w = Inr None \<longrightarrow> getPropertyAnalysis env pid w = Inr None)
   \<and> (\<forall>row. findUnique env pid w = Inr (Some row) \<longrightarrow>
         (\<exists>a. getPropertyAnalysis env pid w = Inr (Some a) \<and> propertyId a = row_id row
            \<and> scrapingResults a = []
            \<and> confidence_metrics a =
                confidence_metrics (calculateAnalysisMetrics (avmEstimates a))))
   \<and> (\<exists>res. getPropertyAnalysis env pid w = Inr res)"
  by (auto simp: getPropertyAnalysis_def Let_def split: sum.splits option.splits)

theorem lookup_failure_gives_null_witness:
  "findUnique brokenReadEnv ''p1'' 0 = Inl ''connection refused''
   \<and> getPropertyAnalysis brokenReadEnv ''p1'' 0 = Inr None
   \<and> findUnique exampleEnv ''p1'' 0 = Inr None
   \<and> getPropertyAnalysis exampleEnv ''p1'' 0 = Inr None"
proof -
  have b: "findUnique brokenReadEnv ''p1'' 0 = Inl ''connection refused''"
    by (simp add: brokenReadEnv_def)
  have u: "findUnique exampleEnv ''p1'' 0 = Inr None"
    by (simp add: exampleEnv_def)
  from lookup_failure_gives_null [of brokenReadEnv "''p1''" 0] b
  have "getPropertyAnalysis brokenReadEnv ''p1'' 0 = Inr None"
    by blast
  moreover from lookup_failure_gives_null [of exampleEnv "''p1''" 0] u
  have "getPropertyAnalysis exampleEnv ''p1'' 0 = Inr None"
    by blast
  ultimately show ?thesis
    using b u by simp
qed

end
